theory Spec2Isabelle
  imports Main "HOL-Library.Log_Nat"
begin

section \<open>JavaScript numbers\<close>

text \<open>
  The handlers of \<^verbatim>\<open>index.js\<close> compute with JavaScript numbers, that is IEEE 754
  binary64 values. A number is modelled as \<open>NaN\<close>, one of the two infinities, or a
  finite value carried as the rational it denotes. Every arithmetic operation computes
  the exact rational result and rounds it to the nearest binary64 value, ties to the even
  significand (\<open>fl\<close>). The sign of zero is not represented: \<open>-0\<close> and \<open>0\<close> are the
  same value here, as they are for \<^verbatim>\<open>===\<close>, \<^verbatim>\<open><\<close> and truthiness.
\<close>

datatype jsnum = NaN | PosInf | NegInf | Fin rat

text \<open>
  Rounding a rational to binary64 works on its numerator and denominator. For a positive
  \<open>n / d\<close>, \<open>ilog2 n d\<close> is the binary exponent \<open>k\<close> with \<open>2^k \<le> n / d < 2^(k+1)\<close>,
  and \<open>round_div n d\<close> is \<open>n / d\<close> rounded to the nearest integer, a tie going to the
  even one.
\<close>

function pow2 :: "int \<Rightarrow> int" where
  "pow2 k = (if k \<le> 0 then 1 else 2 * pow2 (k - 1))"
  by pat_completeness auto
termination
  by (relation "measure nat") auto

declare pow2.simps [simp del]

definition ilog2 :: "int \<Rightarrow> int \<Rightarrow> int" where
  "ilog2 n d =
     (let k = bitlen n - bitlen d
      in if (if 0 \<le> k then d * pow2 k \<le> n else d \<le> n * pow2 (- k)) then k else k - 1)"

definition round_div :: "int \<Rightarrow> int \<Rightarrow> int" where
  "round_div n d =
     (let f = n div d; r = 2 * (n mod d)
      in if r < d then f
         else if d < r then f + 1
         else if even f then f else f + 1)"


text \<open>
  \<open>fl q\<close> is the binary64 value nearest to \<open>q\<close>: the significand has 53 bits, so the
  spacing at binary exponent \<open>e\<close> is \<open>2^(e - 52)\<close>; the least exponent is \<open>-1022\<close>
  (below it the spacing of the subnormal numbers stays \<open>2^-1074\<close>); a rounded magnitude
  of \<open>2^1024\<close> or more is an infinity.
\<close>

definition fl :: "rat \<Rightarrow> jsnum" where
  "fl q =
     (if q = 0 then Fin 0
      else
        let (n, d) = quotient_of \<bar>q\<bar>;
            s = max (ilog2 n d) (- 1022) - 52;
            m = (if 0 \<le> s then round_div n (d * pow2 s) else round_div (n * pow2 (- s)) d)
        in if 1025 \<le> bitlen m + s then (if 0 < q then PosInf else NegInf)
           else
             let v = (if 0 \<le> s then of_int (m * pow2 s) else Fract m (pow2 (- s)))
             in Fin (if 0 < q then v else - v))"

definition js_neg :: "jsnum \<Rightarrow> jsnum" where
  "js_neg x = (case x of NaN \<Rightarrow> NaN | PosInf \<Rightarrow> NegInf | NegInf \<Rightarrow> PosInf | Fin q \<Rightarrow> Fin (- q))"

fun js_add :: "jsnum \<Rightarrow> jsnum \<Rightarrow> jsnum" where
  "js_add NaN _ = NaN"
| "js_add _ NaN = NaN"
| "js_add PosInf NegInf = NaN"
| "js_add NegInf PosInf = NaN"
| "js_add PosInf _ = PosInf"
| "js_add _ PosInf = PosInf"
| "js_add NegInf _ = NegInf"
| "js_add _ NegInf = NegInf"
| "js_add (Fin a) (Fin b) = fl (a + b)"

definition js_sub :: "jsnum \<Rightarrow> jsnum \<Rightarrow> jsnum" where
  "js_sub x y = js_add x (js_neg y)"

text \<open>The sign of a number, for the products and quotients with an infinity.\<close>

fun js_sign :: "jsnum \<Rightarrow> int" where
  "js_sign NaN = 0"
| "js_sign PosInf = 1"
| "js_sign NegInf = - 1"
| "js_sign (Fin q) = (if 0 < q then 1 else if q < 0 then - 1 else 0)"

definition signed_inf :: "int \<Rightarrow> jsnum" where
  "signed_inf s = (if 0 < s then PosInf else if s < 0 then NegInf else NaN)"

fun js_mul :: "jsnum \<Rightarrow> jsnum \<Rightarrow> jsnum" where
  "js_mul NaN _ = NaN"
| "js_mul _ NaN = NaN"
| "js_mul (Fin a) (Fin b) = fl (a * b)"
| "js_mul x y = signed_inf (js_sign x * js_sign y)"

text \<open>
  Division. The source divides by the literal \<open>100\<close> only; a zero divisor is taken as
  \<open>+0\<close>.
\<close>

fun js_div :: "jsnum \<Rightarrow> jsnum \<Rightarrow> jsnum" where
  "js_div NaN _ = NaN"
| "js_div _ NaN = NaN"
| "js_div (Fin a) (Fin b) = (if b = 0 then signed_inf (js_sign (Fin a)) else fl (a / b))"
| "js_div (Fin a) _ = Fin 0"
| "js_div x (Fin b) = signed_inf (js_sign x * (if b < 0 then - 1 else 1))"
| "js_div _ _ = NaN"

text \<open>\<^verbatim>\<open>x < y\<close>: false as soon as one side is \<open>NaN\<close>.\<close>

fun js_lt :: "jsnum \<Rightarrow> jsnum \<Rightarrow> bool" where
  "js_lt NaN _ = False"
| "js_lt _ NaN = False"
| "js_lt (Fin a) (Fin b) = (a < b)"
| "js_lt NegInf y = (y \<noteq> NegInf)"
| "js_lt x PosInf = (x \<noteq> PosInf)"
| "js_lt _ _ = False"

text \<open>\<^verbatim>\<open>Math.max(x, y)\<close>: \<open>NaN\<close> as soon as one argument is \<open>NaN\<close>.\<close>

fun Math_max :: "jsnum \<Rightarrow> jsnum \<Rightarrow> jsnum" where
  "Math_max NaN _ = NaN"
| "Math_max _ NaN = NaN"
| "Math_max x y = (if js_lt x y then y else x)"

text \<open>
  \<^verbatim>\<open>Math.round(x)\<close>: the integer nearest to \<open>x\<close>, a tie going towards \<open>+\<infinity>\<close>; the
  result is exact.
\<close>

fun Math_round :: "jsnum \<Rightarrow> jsnum" where
  "Math_round (Fin q) = fl (of_int \<lfloor>q + 1 / 2\<rfloor>)"
| "Math_round x = x"

text \<open>\<^verbatim>\<open>Number.EPSILON\<close> is \<open>2^-52\<close>.\<close>

definition EPSILON :: jsnum where
  "EPSILON = Fin (1 / 2 ^ 52)"

text \<open>
  \<^verbatim>\<open>const round2 = n => Math.round((n + Number.EPSILON) * 100) / 100;\<close>
\<close>

definition round2 :: "jsnum \<Rightarrow> jsnum" where
  "round2 n = js_div (Math_round (js_mul (js_add n EPSILON) (Fin 100))) (Fin 100)"

text \<open>
  \<open>decimal m k\<close> is the number that the decimal literal \<open>m / 10^k\<close> denotes, for instance
  \<open>decimal 1998 2\<close> for \<^verbatim>\<open>19.98\<close>.
\<close>

definition decimal :: "int \<Rightarrow> nat \<Rightarrow> jsnum" where
  "decimal m k = fl (of_int m / 10 ^ k)"

text \<open>A number is falsy when it is \<open>NaN\<close> or zero.\<close>

fun truthy_num :: "jsnum \<Rightarrow> bool" where
  "truthy_num NaN = False"
| "truthy_num (Fin q) = (q \<noteq> 0)"
| "truthy_num _ = True"


fun is_negative :: "jsnum \<Rightarrow> bool" where
  "is_negative NegInf = True"
| "is_negative (Fin q) = (q < 0)"
| "is_negative _ = False"

section \<open>JavaScript values of a request\<close>

text \<open>
  The scalar values a JSON request body can put in a field; \<open>JUndefined\<close> stands for a
  field that is absent (also the field of an entry that is \<^verbatim>\<open>null\<close> or not an object,
  which is what \<^verbatim>\<open>i?.quantity\<close> yields). Strings are sequences of 8-bit code units.
\<close>

datatype jsval = JUndefined | JNull | JBool bool | JNum jsnum | JStr string

fun truthy :: "jsval \<Rightarrow> bool" where
  "truthy JUndefined = False"
| "truthy JNull = False"
| "truthy (JBool b) = b"
| "truthy (JNum x) = truthy_num x"
| "truthy (JStr s) = (s \<noteq> [])"

text \<open>\<^verbatim>\<open>a || b\<close> on values.\<close>

definition js_or :: "jsval \<Rightarrow> jsval \<Rightarrow> jsval" where
  "js_or a b = (if truthy a then a else b)"

subsection \<open>\<^verbatim>\<open>parseInt(v, 10)\<close>\<close>

text \<open>
  On a string: skip the leading white space (tab, line feed, vertical tab, form feed,
  carriage return, space, no-break space), read an optional sign, then the longest run
  of decimal digits; no digit gives \<open>NaN\<close>.
\<close>

definition is_ws :: "char \<Rightarrow> bool" where
  "is_ws c = ((of_char c :: int) \<in> {9, 10, 11, 12, 13, 32, 160})"

definition digit_of :: "char \<Rightarrow> int option" where
  "digit_of c =
     (let n = (of_char c :: int) in if 48 \<le> n \<and> n \<le> 57 then Some (n - 48) else None)"

fun parse_digits :: "string \<Rightarrow> int option \<Rightarrow> int option" where
  "parse_digits [] acc = acc"
| "parse_digits (c # cs) acc =
     (case digit_of c of
        None \<Rightarrow> acc
      | Some d \<Rightarrow> parse_digits cs (Some (10 * (case acc of None \<Rightarrow> 0 | Some a \<Rightarrow> a) + d)))"

definition parseInt_str :: "string \<Rightarrow> jsnum" where
  "parseInt_str s =
     (let t = dropWhile is_ws s;
          neg = (case t of [] \<Rightarrow> False | c # _ \<Rightarrow> c = CHR ''-'');
          u = (case t of [] \<Rightarrow> [] | c # r \<Rightarrow> if c = CHR ''-'' \<or> c = CHR ''+'' then r else t)
      in case parse_digits u None of
           None \<Rightarrow> NaN
         | Some n \<Rightarrow> fl (of_int (if neg then - n else n)))"

text \<open>
  On a number, \<^verbatim>\<open>parseInt\<close> reads the number's string. From the binary64 value
  of \<open>10^-6\<close> up to \<open>10^21\<close> the string is positional and the digits before the point
  are the number truncated towards zero. Outside that range the string is in exponent
  notation, one digit before the point, and \<^verbatim>\<open>parseInt\<close> returns that digit: the
  leading digit of the shortest decimal that reads back as the number (\<open>lead_digit\<close>).
\<close>

function digits10 :: "int \<Rightarrow> int" where
  "digits10 n = (if n < 10 then 1 else digits10 (n div 10) + 1)"
  by pat_completeness auto
termination
  by (relation "measure nat") auto

declare digits10.simps [simp del]

text \<open>\<open>ilog10 a\<close> is the decimal exponent of a positive rational: \<open>10^k \<le> a < 10^(k+1)\<close>.\<close>

definition ilog10 :: "rat \<Rightarrow> int" where
  "ilog10 a =
     (if 1 \<le> a then digits10 \<lfloor>a\<rfloor> - 1 else - digits10 (\<lceil>1 / a\<rceil> - 1))"

definition lead_digit :: "rat \<Rightarrow> int" where
  "lead_digit a =
     (let k = ilog10 a; d = \<lfloor>a / 10 powi k\<rfloor>
      in if fl (of_int (d + 1) * 10 powi k) = Fin a then (if d = 9 then 1 else d + 1) else d)"

definition parseInt_num :: "jsnum \<Rightarrow> jsnum" where
  "parseInt_num x =
     (case x of
        Fin q \<Rightarrow>
          if q = 0 then Fin 0
          else if js_lt (Fin \<bar>q\<bar>) (fl (1 / 10 ^ 6)) \<or> 10 ^ 21 \<le> \<bar>q\<bar>
          then Fin (of_int (if q < 0 then - lead_digit \<bar>q\<bar> else lead_digit \<bar>q\<bar>))
          else fl (of_int (if q < 0 then \<lceil>q\<rceil> else \<lfloor>q\<rfloor>))
      | _ \<Rightarrow> NaN)"

fun parseInt :: "jsval \<Rightarrow> jsnum" where
  "parseInt (JStr s) = parseInt_str s"
| "parseInt (JNum x) = parseInt_num x"
| "parseInt _ = NaN"

section \<open>Documents, requests and the outside world\<close>

text \<open>
  A product document of the \<^verbatim>\<open>products\<close> collection. \<open>stock = None\<close> is a product
  whose \<^verbatim>\<open>stock\<close> field is absent or not a number (\<^verbatim>\<open>typeof p.stock === 'number'\<close>
  fails); \<open>price\<close> is a number, on which \<^verbatim>\<open>parseFloat\<close> is the identity.
\<close>

record product =
  name :: string
  price :: jsnum
  stock :: "jsnum option"
  image :: "string option"

text \<open>An order document, with the fields that the two handlers write.\<close>

record order_line =
  productId :: string
  line_name :: string
  qty :: jsnum
  line_price :: jsnum

record order =
  userUID :: jsval
  userEmail :: jsval
  userName :: jsval
  date :: string
  items :: "order_line list"
  subtotal :: jsnum
  tps :: jsnum
  tvq :: jsnum
  taxes :: jsnum
  total :: jsnum
  status :: string
  createdAt :: nat
  stripeSessionId :: "string option"
  stripePaymentIntentId :: "string option"
  paidAt :: "nat option"

text \<open>What the processor is asked for, and what it answers.\<close>

record line_item =
  li_quantity :: jsnum
  li_currency :: string
  li_unit_amount :: jsnum
  li_name :: string
  li_images :: "string list"

record session_request =
  mode :: string
  payment_method_types :: "string list"
  customer_email :: jsval
  line_items :: "line_item list"
  success_url :: string
  cancel_url :: string
  metadata_firebaseOrderId :: string
  metadata_userUID :: jsval

record checkout_session =
  session_id :: string
  session_url :: string

text \<open>
  The batched writes of the webhook: an \<^verbatim>\<open>increment\<close> of a product's stock, and the
  update of the order.
\<close>

record order_update =
  u_status :: string
  u_taxes :: jsnum
  u_total :: jsnum
  u_tps :: jsnum
  u_tvq :: jsnum
  u_stripePaymentIntentId :: "string option"
  u_paidAt :: nat

datatype batch_write = Increment_stock string jsnum | Update_order string order_update

text \<open>
  The state of the outside world: the two collections of the document store, each keyed
  by the path of the document inside the collection, and the trace of the side effects
  performed so far, oldest first.
\<close>

datatype effect =
    Order_created string
  | Session_requested session_request
  | Order_updated string
  | Batch_committed "batch_write list"

record world =
  products :: "string \<rightharpoonup> product"
  orders :: "string \<rightharpoonup> order"
  trace :: "effect list"

datatype body = Empty | Text string | Json_error string | Json_url string

datatype response = Response nat body

subsection \<open>Document references\<close>

text \<open>
  \<^verbatim>\<open>db.collection(c).doc(path)\<close> builds the reference of a document of the collection
  from a string. The client library refuses the empty string and a string that contains
  \<^verbatim>\<open>//\<close>; it splits the string at the slashes and drops the empty segments, so that a
  leading or a trailing slash is allowed; what is left must be the path of a document,
  that is an odd number of segments (a document of the collection itself, or of a
  collection nested under one of its documents). Otherwise \<^verbatim>\<open>doc\<close> throws.
  \<open>doc_ref path\<close> is the key of the document in the collection, the segments joined by
  slashes, and \<open>None\<close> when \<^verbatim>\<open>doc\<close> throws.
\<close>

fun has_double_slash :: "string \<Rightarrow> bool" where
  "has_double_slash (a # b # s) = ((a = CHR ''/'' \<and> b = CHR ''/'') \<or> has_double_slash (b # s))"
| "has_double_slash _ = False"

text \<open>\<^verbatim>\<open>path.split('/')\<close>, \<open>cur\<close> being the segment read so far.\<close>

fun split_slash :: "string \<Rightarrow> string \<Rightarrow> string list" where
  "split_slash cur [] = [cur]"
| "split_slash cur (c # s) =
     (if c = CHR ''/'' then cur # split_slash [] s else split_slash (cur @ [c]) s)"

fun join_slash :: "string list \<Rightarrow> string" where
  "join_slash [] = []"
| "join_slash [x] = x"
| "join_slash (x # y # xs) = x @ CHR ''/'' # join_slash (y # xs)"

definition doc_ref :: "string \<Rightarrow> string option" where
  "doc_ref path =
     (if path = [] \<or> has_double_slash path then None
      else
        let segs = filter (\<lambda>x. x \<noteq> []) (split_slash [] path)
        in if odd (length segs) then Some (join_slash segs) else None)"

subsection \<open>Store and processor operations\<close>

text \<open>
  \<^verbatim>\<open>db.collection('orders').add(doc)\<close>, the store assigning the identifier \<open>oid\<close>, under
  which the document is kept.
\<close>

definition orders_add :: "world \<Rightarrow> string \<Rightarrow> order \<Rightarrow> world" where
  "orders_add w oid doc = w\<lparr>orders := (orders w)(oid \<mapsto> doc), trace := trace w @ [Order_created oid]\<rparr>"

text \<open>
  \<^verbatim>\<open>orderRef.update({ stripeSessionId: ... })\<close>. An update of a document that does not
  exist is rejected by the store (\<open>None\<close>).
\<close>

definition orders_update_session :: "world \<Rightarrow> string \<Rightarrow> string \<Rightarrow> world option" where
  "orders_update_session w oid sid =
     (case orders w oid of
        None \<Rightarrow> None
      | Some doc \<Rightarrow>
          Some (w\<lparr>orders := (orders w)(oid \<mapsto> doc\<lparr>stripeSessionId := Some sid\<rparr>),
                  trace := trace w @ [Order_updated oid]\<rparr>))"

text \<open>
  \<^verbatim>\<open>stripe.checkout.sessions.create(...)\<close>: the processor is a parameter, answering a
  request with a session or with the message of the error it throws.
\<close>

definition sessions_create ::
  "(session_request \<Rightarrow> string + checkout_session) \<Rightarrow> world \<Rightarrow> session_request
     \<Rightarrow> (string + checkout_session) \<times> world" where
  "sessions_create processor w sreq = (processor sreq, w\<lparr>trace := trace w @ [Session_requested sreq]\<rparr>)"

text \<open>
  One write of a batch, on the two collections, the document being given by its key.
  \<^verbatim>\<open>FieldValue.increment(d)\<close> adds \<open>d\<close> to a numeric field and sets a field that is
  absent or not a number to \<open>d\<close>. Each write is an update, which the store rejects when
  the document does not exist.
\<close>

fun apply_write ::
  "(string \<rightharpoonup> product) \<times> (string \<rightharpoonup> order) \<Rightarrow> batch_write
     \<Rightarrow> ((string \<rightharpoonup> product) \<times> (string \<rightharpoonup> order)) option" where
  "apply_write (ps, os) (Increment_stock pid d) =
     (case ps pid of
        None \<Rightarrow> None
      | Some p \<Rightarrow>
          Some (ps(pid \<mapsto> p\<lparr>stock := Some (case stock p of None \<Rightarrow> d | Some s \<Rightarrow> js_add s d)\<rparr>), os))"
| "apply_write (ps, os) (Update_order oid u) =
     (case os oid of
        None \<Rightarrow> None
      | Some doc \<Rightarrow>
          Some (ps, os(oid \<mapsto> doc\<lparr>status := u_status u, taxes := u_taxes u, total := u_total u,
                                   tps := u_tps u, tvq := u_tvq u,
                                   stripePaymentIntentId := u_stripePaymentIntentId u,
                                   paidAt := Some (u_paidAt u)\<rparr>)))"

fun apply_writes ::
  "(string \<rightharpoonup> product) \<times> (string \<rightharpoonup> order) \<Rightarrow> batch_write list
     \<Rightarrow> ((string \<rightharpoonup> product) \<times> (string \<rightharpoonup> order)) option" where
  "apply_writes db [] = Some db"
| "apply_writes db (wr # wrs) =
     (case apply_write db wr of None \<Rightarrow> None | Some db' \<Rightarrow> apply_writes db' wrs)"

text \<open>
  \<^verbatim>\<open>batch.commit()\<close>: the writes are applied in order and all together; when one of them
  is rejected the commit throws (\<open>None\<close>) and nothing is written.
\<close>

definition batch_commit :: "world \<Rightarrow> batch_write list \<Rightarrow> world option" where
  "batch_commit w batch =
     (case apply_writes (products w, orders w) batch of
        None \<Rightarrow> None
      | Some (ps, os) \<Rightarrow>
          Some (w\<lparr>products := ps, orders := os, trace := trace w @ [Batch_committed batch]\<rparr>))"

section \<open>The Checkout Initiator: \<^verbatim>\<open>createCheckoutSession\<close>\<close>

text \<open>
  A cart entry \<^verbatim>\<open>i\<close> is read through \<^verbatim>\<open>i?.id\<close> and \<^verbatim>\<open>i?.quantity\<close> only. The
  identifier is a string, the empty string standing for an absent or falsy one; the
  quantity is any scalar. \<open>entry_price\<close> is whatever price the client put in the entry:
  the handler has no access to it.
\<close>

record cart_entry =
  entry_id :: string
  entry_quantity :: jsval
  entry_price :: jsval

record user =
  uid :: jsval
  email :: jsval
  user_name :: jsval

text \<open>
  The request: \<open>cart = None\<close> when \<^verbatim>\<open>req.body.cart\<close> is not an array; the fields of a
  missing \<^verbatim>\<open>user\<close> are \<open>JUndefined\<close>; \<open>origin\<close> and \<open>referer\<close> are the two request
  headers, when present.
\<close>

record request =
  http_method :: string
  cart :: "cart_entry list option"
  user :: user
  origin :: "string option"
  referer :: "string option"

text \<open>
  What the surroundings of one invocation supply: the processor, the identifier the
  store gives to the document that \<^verbatim>\<open>add\<close> creates, the date string of
  \<^verbatim>\<open>new Date().toLocaleDateString('fr-CA')\<close>, the server timestamp, and the message of
  the error that \<^verbatim>\<open>doc\<close> throws on a string that is not the path of a document.
\<close>

record checkout_env =
  processor :: "session_request \<Rightarrow> string + checkout_session"
  new_order_id :: string
  today :: string
  now :: nat
  reference_error :: "string \<Rightarrow> string"

text \<open>A validated line, as pushed on \<^verbatim>\<open>items\<close>.\<close>

record item =
  item_id :: string
  item_name :: string
  unit_amount :: jsnum
  quantity :: jsnum
  item_image :: "string option"

text \<open>\<^verbatim>\<open>Math.max(1, parseInt(i.quantity, 10))\<close>\<close>

definition effective_quantity :: "jsval \<Rightarrow> jsnum" where
  "effective_quantity q = Math_max (Fin 1) (parseInt q)"

text \<open>\<^verbatim>\<open>Math.round(parseFloat(p.price) * 100)\<close>, the price in cents.\<close>

definition cents :: "jsnum \<Rightarrow> jsnum" where
  "cents pr = Math_round (js_mul pr (Fin 100))"

definition make_item :: "cart_entry \<Rightarrow> product \<Rightarrow> item" where
  "make_item i p =
     \<lparr>item_id = entry_id i, item_name = name p, unit_amount = cents (price p),
      quantity = effective_quantity (entry_quantity i),
      item_image = (case image p of None \<Rightarrow> None | Some s \<Rightarrow> if s = [] then None else Some s)\<rparr>"

text \<open>
  The loop over the cart, \<open>acc\<close> being \<^verbatim>\<open>items\<close> so far. It stops with the response of
  the \<^verbatim>\<open>return\<close> in its body or with the error that \<^verbatim>\<open>doc(i.id)\<close> throws (\<open>err\<close> gives
  its message), or ends with the validated items.
\<close>

datatype stop = Returned response | Thrown string

fun validate_cart ::
  "(string \<Rightarrow> string) \<Rightarrow> (string \<rightharpoonup> product) \<Rightarrow> cart_entry list \<Rightarrow> item list \<Rightarrow> stop + item list" where
  "validate_cart err ps [] acc = Inr acc"
| "validate_cart err ps (i # rest) acc =
     (if entry_id i = [] \<or> \<not> truthy (entry_quantity i) then validate_cart err ps rest acc
      else
        case doc_ref (entry_id i) of
          None \<Rightarrow> Inl (Thrown (err (entry_id i)))
        | Some k \<Rightarrow>
            (case ps k of
               None \<Rightarrow> validate_cart err ps rest acc
             | Some p \<Rightarrow>
                 let q = effective_quantity (entry_quantity i)
                 in if (case stock p of None \<Rightarrow> False | Some s \<Rightarrow> js_lt s q)
                    then Inl (Returned (Response 400 (Json_error (''Stock insuffisant: '' @ name p))))
                    else validate_cart err ps rest (acc @ [make_item i p])))"

text \<open>
  \<^verbatim>\<open>round2(items.reduce((s, it) => s + (it.unit_amount / 100) * it.quantity, 0))\<close>
\<close>

definition subtotal_of :: "item list \<Rightarrow> jsnum" where
  "subtotal_of its =
     round2 (foldl (\<lambda>s it. js_add s (js_mul (js_div (unit_amount it) (Fin 100)) (quantity it))) (Fin 0) its)"

definition order_line_of :: "item \<Rightarrow> order_line" where
  "order_line_of it =
     \<lparr>productId = item_id it, line_name = item_name it, qty = quantity it,
      line_price = js_div (unit_amount it) (Fin 100)\<rparr>"

definition pending_order :: "checkout_env \<Rightarrow> user \<Rightarrow> item list \<Rightarrow> order" where
  "pending_order env u its =
     \<lparr>userUID = uid u, userEmail = email u, userName = js_or (user_name u) (email u),
      date = today env, items = map order_line_of its, subtotal = subtotal_of its,
      tps = Fin 0, tvq = Fin 0, taxes = Fin 0, total = Fin 0, status = ''pending'',
      createdAt = now env, stripeSessionId = None, stripePaymentIntentId = None,
      paidAt = None\<rparr>"

definition line_item_of :: "item \<Rightarrow> line_item" where
  "line_item_of it =
     \<lparr>li_quantity = quantity it, li_currency = ''cad'', li_unit_amount = unit_amount it,
      li_name = item_name it,
      li_images = (case item_image it of None \<Rightarrow> [] | Some s \<Rightarrow> [s])\<rparr>"

text \<open>
  \<^verbatim>\<open>(req.get('origin') || req.get('referer') || '').replace(/\/$/, '') || 'http://localhost:5000'\<close>
\<close>

definition header_or :: "string option \<Rightarrow> string \<Rightarrow> string" where
  "header_or h d = (case h of None \<Rightarrow> d | Some s \<Rightarrow> if s = [] then d else s)"

definition strip_slash :: "string \<Rightarrow> string" where
  "strip_slash s = (if s \<noteq> [] \<and> last s = CHR ''/'' then butlast s else s)"

definition origin_of :: "request \<Rightarrow> string" where
  "origin_of req =
     (let s = strip_slash (header_or (origin req) (header_or (referer req) []))
      in if s = [] then ''http://localhost:5000'' else s)"

definition session_request_of :: "request \<Rightarrow> string \<Rightarrow> item list \<Rightarrow> session_request" where
  "session_request_of req oid its =
     \<lparr>mode = ''payment'', payment_method_types = [''card''],
      customer_email = email (user req), line_items = map line_item_of its,
      success_url = origin_of req @ ''/?payment=success&order='' @ oid,
      cancel_url = origin_of req @ ''/?payment=cancel'',
      metadata_firebaseOrderId = oid, metadata_userUID = uid (user req)\<rparr>"

text \<open>
  The handler. The \<^verbatim>\<open>cors\<close> middleware answers a preflight (\<^verbatim>\<open>OPTIONS\<close>) request
  itself and passes every other request on. An exception in the body, thrown by \<^verbatim>\<open>doc\<close>
  in the loop or by the processor, is caught and answered with status 500 and its
  message; what was written before stays written.
\<close>

definition createCheckoutSession :: "checkout_env \<Rightarrow> world \<Rightarrow> request \<Rightarrow> response \<times> world" where
  "createCheckoutSession env w req =
     (if http_method req = ''OPTIONS'' then (Response 204 Empty, w)
      else if http_method req \<noteq> ''POST'' then (Response 405 (Text ''Method Not Allowed''), w)
      else
        case cart req of
          None \<Rightarrow> (Response 400 (Json_error ''Payload invalide''), w)
        | Some c \<Rightarrow>
            if \<not> truthy (uid (user req)) \<or> \<not> truthy (email (user req))
            then (Response 400 (Json_error ''Payload invalide''), w)
            else
              case validate_cart (reference_error env) (products w) c [] of
                Inl (Returned r) \<Rightarrow> (r, w)
              | Inl (Thrown msg) \<Rightarrow> (Response 500 (Json_error (''Erreur serveur: '' @ msg)), w)
              | Inr its \<Rightarrow>
                  if its = [] then (Response 400 (Json_error ''Panier vide''), w)
                  else
                    let oid = new_order_id env;
                        w1 = orders_add w oid (pending_order env (user req) its);
                        (answer, w2) = sessions_create (processor env) w1 (session_request_of req oid its)
                    in case answer of
                         Inl msg \<Rightarrow> (Response 500 (Json_error (''Erreur serveur: '' @ msg)), w2)
                       | Inr session \<Rightarrow>
                           (case orders_update_session w2 oid (session_id session) of
                              None \<Rightarrow> (Response 500 (Json_error ''Erreur serveur: ''), w2)
                            | Some w3 \<Rightarrow> (Response 200 (Json_url (session_url session)), w3)))"

section \<open>The Completion Reconciler: \<^verbatim>\<open>stripeWebhook\<close>\<close>

text \<open>
  The event that \<^verbatim>\<open>constructEvent\<close> returns, with the fields of \<^verbatim>\<open>event.data.object\<close>
  that the handler reads. \<open>firebaseOrderId = None\<close> when the metadata or the key is
  absent; an amount is \<open>None\<close> when it is absent or \<^verbatim>\<open>null\<close>; \<open>payment_intent = None\<close>
  is \<^verbatim>\<open>null\<close>.
\<close>

record checkout_object =
  firebaseOrderId :: "string option"
  amount_total :: "jsnum option"
  amount_subtotal :: "jsnum option"
  payment_intent :: "string option"

record event =
  event_type :: string
  data_object :: checkout_object

record webhook_request =
  rawBody :: string
  stripe_signature :: "string option"

text \<open>
  \<^verbatim>\<open>stripe.webhooks.constructEvent(rawBody, sig, secret)\<close> is a parameter: it returns
  the verified event, or throws with a message.
\<close>

record webhook_env =
  constructEvent :: "string \<Rightarrow> string option \<Rightarrow> string + event"
  commit_time :: nat

text \<open>\<^verbatim>\<open>(x || 0) / 100\<close>\<close>

definition major_units :: "jsnum option \<Rightarrow> jsnum" where
  "major_units a =
     js_div (case a of None \<Rightarrow> Fin 0 | Some x \<Rightarrow> if truthy_num x then x else Fin 0) (Fin 100)"

text \<open>
  The loop over \<^verbatim>\<open>order.items\<close>, queueing one decrement per counted line; \<open>None\<close> when
  \<^verbatim>\<open>doc(it.productId)\<close> throws.
\<close>

fun stock_writes :: "order_line list \<Rightarrow> batch_write list option" where
  "stock_writes [] = Some []"
| "stock_writes (it # rest) =
     (if productId it = [] \<or> \<not> truthy_num (qty it) then stock_writes rest
      else
        case doc_ref (productId it) of
          None \<Rightarrow> None
        | Some k \<Rightarrow>
            (case stock_writes rest of
               None \<Rightarrow> None
             | Some ws \<Rightarrow> Some (Increment_stock k (js_neg (qty it)) # ws)))"

definition paid_update :: "webhook_env \<Rightarrow> checkout_object \<Rightarrow> order_update" where
  "paid_update env session =
     \<lparr>u_status = ''paid'',
      u_taxes = round2 (js_sub (major_units (amount_total session)) (major_units (amount_subtotal session))),
      u_total = major_units (amount_total session),
      u_tps = Fin 0, u_tvq = Fin 0,
      u_stripePaymentIntentId = payment_intent session,
      u_paidAt = commit_time env\<rparr>"

text \<open>
  The handler. A verification that fails is answered with status 400. After it,
  \<^verbatim>\<open>doc(orderId)\<close> or \<^verbatim>\<open>doc(it.productId)\<close> may throw and the commit may be rejected:
  each is caught and answered with status 500, nothing having been written.
\<close>

definition stripeWebhook :: "webhook_env \<Rightarrow> world \<Rightarrow> webhook_request \<Rightarrow> response \<times> world" where
  "stripeWebhook env w req =
     (case constructEvent env (rawBody req) (stripe_signature req) of
        Inl msg \<Rightarrow> (Response 400 (Text (''Webhook Error: '' @ msg)), w)
      | Inr ev \<Rightarrow>
          if event_type ev = ''checkout.session.completed'' then
            let session = data_object ev
            in case firebaseOrderId session of
                 None \<Rightarrow> (Response 200 Empty, w)
               | Some orderId \<Rightarrow>
                   if orderId = [] then (Response 200 Empty, w)
                   else
                     case doc_ref orderId of
                       None \<Rightarrow> (Response 500 (Text ''Webhook handling error''), w)
                     | Some k \<Rightarrow>
                         (case orders w k of
                            None \<Rightarrow> (Response 200 Empty, w)
                          | Some doc \<Rightarrow>
                              (case stock_writes (items doc) of
                                 None \<Rightarrow> (Response 500 (Text ''Webhook handling error''), w)
                               | Some ws \<Rightarrow>
                                   (case batch_commit w (ws @ [Update_order k (paid_update env session)]) of
                                      None \<Rightarrow> (Response 500 (Text ''Webhook handling error''), w)
                                    | Some w' \<Rightarrow> (Response 200 Empty, w'))))
          else (Response 200 Empty, w))"

section \<open>Notions used in the statements\<close>

subsection \<open>Cart entries\<close>

text \<open>
  The product that an identifier names: the document at the reference that \<^verbatim>\<open>doc\<close>
  builds from it, when it builds one and the document exists.
\<close>

definition product_of :: "(string \<rightharpoonup> product) \<Rightarrow> string \<Rightarrow> product option" where
  "product_of ps path = (case doc_ref path of None \<Rightarrow> None | Some k \<Rightarrow> ps k)"

text \<open>
  An entry is retained by the loop when its identifier and quantity are truthy and its
  identifier names a product; it is short of stock when, moreover, the product has a
  numeric stock below the quantity that the handler derives from the entry. An entry has
  a bad reference when its identifier and quantity are truthy and the identifier is not
  the path of a document: there \<^verbatim>\<open>doc\<close> throws. The loop stops at the first entry that
  has a bad reference or is short of stock.
\<close>

definition retained :: "(string \<rightharpoonup> product) \<Rightarrow> cart_entry \<Rightarrow> bool" where
  "retained ps i =
     (entry_id i \<noteq> [] \<and> truthy (entry_quantity i) \<and> product_of ps (entry_id i) \<noteq> None)"

definition short_of_stock :: "(string \<rightharpoonup> product) \<Rightarrow> cart_entry \<Rightarrow> bool" where
  "short_of_stock ps i =
     (retained ps i \<and>
      (case product_of ps (entry_id i) of
         None \<Rightarrow> False
       | Some p \<Rightarrow> (case stock p of None \<Rightarrow> False | Some s \<Rightarrow> js_lt s (effective_quantity (entry_quantity i)))))"

definition bad_reference :: "cart_entry \<Rightarrow> bool" where
  "bad_reference i = (entry_id i \<noteq> [] \<and> truthy (entry_quantity i) \<and> doc_ref (entry_id i) = None)"

definition stops :: "(string \<rightharpoonup> product) \<Rightarrow> cart_entry \<Rightarrow> bool" where
  "stops ps i = (bad_reference i \<or> short_of_stock ps i)"

text \<open>
  An entry that asks for more than the stock, in the words of the specification: the
  quantity of the request, a number, is above the numeric stock of the product.
\<close>

definition exceeds_stock :: "(string \<rightharpoonup> product) \<Rightarrow> cart_entry \<Rightarrow> bool" where
  "exceeds_stock ps i =
     (retained ps i \<and>
      (case (product_of ps (entry_id i), entry_quantity i) of
         (Some p, JNum x) \<Rightarrow> (case stock p of None \<Rightarrow> False | Some s \<Rightarrow> js_lt s x)
       | _ \<Rightarrow> False))"


text \<open>The items that the loop makes of the retained entries of a cart.\<close>

definition retained_items :: "(string \<rightharpoonup> product) \<Rightarrow> cart_entry list \<Rightarrow> item list" where
  "retained_items ps c =
     List.map_filter
       (\<lambda>i. if entry_id i = [] \<or> \<not> truthy (entry_quantity i) then None
            else map_option (make_item i) (product_of ps (entry_id i))) c"

subsection \<open>The subtotal in cents\<close>

text \<open>
  The subtotal in the words of the specification, computed on whole numbers and on exact
  fractions only. \<open>price_cents x\<close> is the whole number of cents nearest to the price
  \<open>x\<close>, and \<open>whole x\<close> the whole part of a quantity. \<open>total_cents\<close> is the sum, over the
  retained entries, of the price in cents of the product times the quantity of the entry,
  and \<open>spec_subtotal\<close> is that amount written with two decimals.
\<close>

definition price_cents :: "jsnum \<Rightarrow> int" where
  "price_cents x = (case x of Fin q \<Rightarrow> \<lfloor>q * 100 + 1 / 2\<rfloor> | _ \<Rightarrow> 0)"

definition whole :: "jsnum \<Rightarrow> int" where
  "whole x = (case x of Fin q \<Rightarrow> \<lfloor>q\<rfloor> | _ \<Rightarrow> 0)"

definition entry_cents :: "(string \<rightharpoonup> product) \<Rightarrow> cart_entry \<Rightarrow> int" where
  "entry_cents ps i =
     (case product_of ps (entry_id i) of None \<Rightarrow> 0 | Some p \<Rightarrow> price_cents (price p))"

definition total_cents :: "(string \<rightharpoonup> product) \<Rightarrow> cart_entry list \<Rightarrow> int" where
  "total_cents ps c =
     sum_list (map (\<lambda>i. entry_cents ps i * whole (effective_quantity (entry_quantity i)))
                   (filter (retained ps) c))"

definition spec_subtotal :: "(string \<rightharpoonup> product) \<Rightarrow> cart_entry list \<Rightarrow> jsnum" where
  "spec_subtotal ps c = decimal (total_cents ps c) 2"

text \<open>
  A cart is priced in cents when the price of the product of each retained entry is a
  number of two decimals and not negative, the quantity derived from the entry is a
  whole number, one or more, and the amounts are of a size that binary64 arithmetic
  carries: the total in cents times the number of lines (and five more) is \<open>2^50\<close> at
  most.
\<close>

definition two_decimals :: "jsnum \<Rightarrow> bool" where
  "two_decimals x = (0 \<le> price_cents x \<and> x = decimal (price_cents x) 2)"

definition whole_quantity :: "jsnum \<Rightarrow> bool" where
  "whole_quantity x = (1 \<le> whole x \<and> x = Fin (of_int (whole x)))"

definition priced_in_cents :: "(string \<rightharpoonup> product) \<Rightarrow> cart_entry list \<Rightarrow> bool" where
  "priced_in_cents ps c =
     ((\<forall>i \<in> set c. retained ps i \<longrightarrow>
         (case product_of ps (entry_id i) of None \<Rightarrow> False | Some p \<Rightarrow> two_decimals (price p)) \<and>
         whole_quantity (effective_quantity (entry_quantity i))) \<and>
      (int (length (filter (retained ps) c)) + 5) * total_cents ps c \<le> 2 ^ 50)"

subsection \<open>Order lines and stock\<close>

text \<open>
  A line is counted by the webhook when its product reference and its quantity are
  truthy. \<open>line_quantities its k\<close> are the quantities of the counted lines whose
  reference is the product document \<open>k\<close>, in order; \<open>decrement\<close> is what one
  \<^verbatim>\<open>increment(-q)\<close> does to a stock field; \<open>stock_decrements\<close> are the writes that the
  loop queues when every reference is the path of a document.
\<close>

definition counted :: "order_line \<Rightarrow> bool" where
  "counted it = (productId it \<noteq> [] \<and> truthy_num (qty it))"

definition line_quantities :: "order_line list \<Rightarrow> string \<Rightarrow> jsnum list" where
  "line_quantities its k = map qty (filter (\<lambda>it. counted it \<and> doc_ref (productId it) = Some k) its)"

definition decrement :: "jsnum option \<Rightarrow> jsnum \<Rightarrow> jsnum option" where
  "decrement s q = Some (case s of None \<Rightarrow> js_neg q | Some x \<Rightarrow> js_sub x q)"

definition stock_after :: "(string \<rightharpoonup> product) \<Rightarrow> order_line list \<Rightarrow> (string \<rightharpoonup> product)" where
  "stock_after ps its =
     (\<lambda>k. map_option (\<lambda>p. p\<lparr>stock := foldl decrement (stock p) (line_quantities its k)\<rparr>) (ps k))"

definition stock_decrements :: "order_line list \<Rightarrow> batch_write list" where
  "stock_decrements its =
     map (\<lambda>it. Increment_stock (the (doc_ref (productId it))) (js_neg (qty it))) (filter counted its)"

text \<open>The order document after the update of the webhook.\<close>

definition paid_order :: "order \<Rightarrow> order_update \<Rightarrow> order" where
  "paid_order doc u =
     doc\<lparr>status := u_status u, taxes := u_taxes u, total := u_total u, tps := u_tps u,
         tvq := u_tvq u, stripePaymentIntentId := u_stripePaymentIntentId u,
         paidAt := Some (u_paidAt u)\<rparr>"

text \<open>
  A request matches when its signature verifies, the event is a completed checkout
  session, its metadata carries an order identifier, the identifier is the path of a
  document and that order exists. The order reference of a request is unreadable when
  the first three hold and the identifier is not the path of a document.
\<close>

definition matches :: "webhook_env \<Rightarrow> world \<Rightarrow> webhook_request \<Rightarrow> bool" where
  "matches env w req =
     (case constructEvent env (rawBody req) (stripe_signature req) of
        Inl msg \<Rightarrow> False
      | Inr ev \<Rightarrow>
          event_type ev = ''checkout.session.completed'' \<and>
          (case firebaseOrderId (data_object ev) of
             None \<Rightarrow> False
           | Some oid \<Rightarrow>
               oid \<noteq> [] \<and> (case doc_ref oid of None \<Rightarrow> False | Some k \<Rightarrow> orders w k \<noteq> None)))"

definition unreadable_reference :: "webhook_env \<Rightarrow> webhook_request \<Rightarrow> bool" where
  "unreadable_reference env req =
     (case constructEvent env (rawBody req) (stripe_signature req) of
        Inl msg \<Rightarrow> False
      | Inr ev \<Rightarrow>
          event_type ev = ''checkout.session.completed'' \<and>
          (case firebaseOrderId (data_object ev) of
             None \<Rightarrow> False
           | Some oid \<Rightarrow> oid \<noteq> [] \<and> doc_ref oid = None))"


definition signature_fails :: "webhook_env \<Rightarrow> webhook_request \<Rightarrow> bool" where
  "signature_fails env req = isl (constructEvent env (rawBody req) (stripe_signature req))"

subsection \<open>Orders of side effects\<close>

fun create_update_session :: "effect list \<Rightarrow> bool" where
  "create_update_session [Order_created a, Order_updated b, Session_requested r] = True"
| "create_update_session _ = False"

fun create_session_update :: "effect list \<Rightarrow> bool" where
  "create_session_update [Order_created a, Session_requested r, Order_updated b] = True"
| "create_session_update _ = False"

section \<open>The example of the specification\<close>

text \<open>
  Product \<open>p1\<close> costs 9.99 and has 5 in stock; the cart asks for 2 of it; the processor
  answers every request with a session.
\<close>

definition ex_product :: product where
  "ex_product = \<lparr>name = ''Widget'', price = decimal 999 2, stock = Some (Fin 5), image = None\<rparr>"

definition ex_world :: world where
  "ex_world = \<lparr>products = [''p1'' \<mapsto> ex_product], orders = Map.empty, trace = []\<rparr>"

definition ex_session :: checkout_session where
  "ex_session = \<lparr>session_id = ''cs_1'', session_url = ''https://pay.example/cs_1''\<rparr>"

definition ex_env :: checkout_env where
  "ex_env =
     \<lparr>processor = (\<lambda>r. Inr ex_session), new_order_id = ''o1'', today = ''2024-05-01'', now = 10,
      reference_error = (\<lambda>path. ''not a document path'')\<rparr>"

definition ex_user :: user where
  "ex_user = \<lparr>uid = JStr ''u1'', email = JStr ''u1@example.org'', user_name = JUndefined\<rparr>"

definition ex_entry :: "jsval \<Rightarrow> cart_entry" where
  "ex_entry q = \<lparr>entry_id = ''p1'', entry_quantity = q, entry_price = JNum (Fin 1)\<rparr>"

definition ex_request :: "cart_entry list \<Rightarrow> request" where
  "ex_request c = \<lparr>http_method = ''POST'', cart = Some c, user = ex_user, origin = None, referer = None\<rparr>"

definition ex_items :: "item list" where
  "ex_items = [\<lparr>item_id = ''p1'', item_name = ''Widget'', unit_amount = Fin 999, quantity = Fin 2, item_image = None\<rparr>]"

definition ex_order :: order where
  "ex_order =
     \<lparr>userUID = JStr ''u1'', userEmail = JStr ''u1@example.org'', userName = JStr ''u1@example.org'',
      date = ''2024-05-01'',
      items = [\<lparr>productId = ''p1'', line_name = ''Widget'', qty = Fin 2, line_price = decimal 999 2\<rparr>],
      subtotal = decimal 1998 2, tps = Fin 0, tvq = Fin 0, taxes = Fin 0, total = Fin 0,
      status = ''pending'', createdAt = 10, stripeSessionId = Some ''cs_1'',
      stripePaymentIntentId = None, paidAt = None\<rparr>"

text \<open>The world once the order of the example is pending.\<close>

definition ex_pending :: world where
  "ex_pending = \<lparr>products = [''p1'' \<mapsto> ex_product], orders = [''o1'' \<mapsto> ex_order], trace = []\<rparr>"

text \<open>
  The completion event of the example, \<^verbatim>\<open>amount_total = 2258\<close> and
  \<^verbatim>\<open>amount_subtotal = 1998\<close>, and a webhook that accepts the signature \<open>good\<close> only.
\<close>

definition ex_event :: "string \<Rightarrow> jsnum option \<Rightarrow> jsnum option \<Rightarrow> event" where
  "ex_event oid t st =
     \<lparr>event_type = ''checkout.session.completed'',
      data_object = \<lparr>firebaseOrderId = Some oid, amount_total = t, amount_subtotal = st,
                      payment_intent = Some ''pi_1''\<rparr>\<rparr>"

definition ex_webhook_env :: "event \<Rightarrow> webhook_env" where
  "ex_webhook_env ev =
     \<lparr>constructEvent = (\<lambda>body sig. if sig = Some ''good'' then Inr ev else Inl ''bad signature''),
      commit_time = 20\<rparr>"

definition ex_delivery :: "string \<Rightarrow> webhook_request" where
  "ex_delivery sig = \<lparr>rawBody = ''{}'', stripe_signature = Some sig\<rparr>"

text \<open>The same world after product \<open>p1\<close> was deleted from the store.\<close>

definition ex_deleted :: world where
  "ex_deleted = \<lparr>products = Map.empty, orders = [''o1'' \<mapsto> ex_order], trace = []\<rparr>"

definition ex_paid_event :: event where
  "ex_paid_event = ex_event ''o1'' (Some (Fin 2258)) (Some (Fin 1998))"


definition ex_entry_at :: "string \<Rightarrow> jsval \<Rightarrow> cart_entry" where
  "ex_entry_at path q = \<lparr>entry_id = path, entry_quantity = q, entry_price = JNull\<rparr>"

text \<open>
  Two buyers each order 3 of product \<open>p1\<close>, of which the store has 5, and both pay:
  \<open>ex_two_orders\<close> is the world after the two checkouts, \<open>ex_both_paid\<close> the world after
  the two completion events.
\<close>

definition ex_two_orders :: world where
  "ex_two_orders =
     snd (createCheckoutSession (ex_env\<lparr>new_order_id := ''o2''\<rparr>)
            (snd (createCheckoutSession ex_env ex_world (ex_request [ex_entry (JNum (Fin 3))])))
            (ex_request [ex_entry (JNum (Fin 3))]))"

definition ex_both_paid :: world where
  "ex_both_paid =
     snd (stripeWebhook (ex_webhook_env (ex_event ''o2'' (Some (Fin 2997)) (Some (Fin 2997))))
            (snd (stripeWebhook (ex_webhook_env (ex_event ''o1'' (Some (Fin 2997)) (Some (Fin 2997))))
                    ex_two_orders (ex_delivery ''good'')))
            (ex_delivery ''good''))"

section \<open>Properties\<close>

subsection \<open>Rounding to binary64\<close>

lemma pow2_pos: "0 < pow2 k"
  by (induction k rule: pow2.induct) (subst pow2.simps, auto)


lemma round_div_nonneg: "0 \<le> n \<Longrightarrow> 0 < d \<Longrightarrow> 0 \<le> round_div n d"
  by (auto simp: round_div_def Let_def pos_imp_zdiv_nonneg_iff intro: add_nonneg_nonneg)

lemma quotient_of_nonneg:
  assumes "0 \<le> q" and "quotient_of q = (n, d)"
  shows "0 \<le> n" and "0 < d"
proof -
  show d: "0 < d" using assms(2) by (rule quotient_of_denom_pos)
  from assms(2) have "q = of_int n / of_int d" by (rule quotient_of_div)
  with assms(1) d show "0 \<le> n" by (simp add: zero_le_divide_iff)
qed

text \<open>The definition of \<open>fl\<close> on a positive rational, and its symmetry.\<close>

lemma fl_pos:
  assumes "0 < q" and "quotient_of q = (n, d)"
  shows "fl q =
     (let s = max (ilog2 n d) (- 1022) - 52;
          m = (if 0 \<le> s then round_div n (d * pow2 s) else round_div (n * pow2 (- s)) d)
      in if 1025 \<le> bitlen m + s then PosInf
         else Fin (if 0 \<le> s then of_int (m * pow2 s) else Fract m (pow2 (- s))))"
proof -
  from assms(1) have "\<bar>q\<bar> = q" "q \<noteq> 0" by simp_all
  then show ?thesis
    unfolding fl_def Let_def using assms by (simp only: if_False if_True split)
qed


lemma fl_nonneg: "0 \<le> q \<Longrightarrow> \<not> is_negative (fl q)"
proof (cases "q = 0")
  case True
  then show ?thesis by (simp add: fl_def)
next
  case False
  assume "0 \<le> q"
  with False have pos: "0 < q" by simp
  obtain n d where nd: "quotient_of q = (n, d)" by (cases "quotient_of q")
  with pos have n: "0 \<le> n" and d: "0 < d" by (auto dest: quotient_of_nonneg [rotated])
  let ?s = "max (ilog2 n d) (- 1022) - 52"
  let ?m = "if 0 \<le> ?s then round_div n (d * pow2 ?s) else round_div (n * pow2 (- ?s)) d"
  have m: "0 \<le> ?m"
    using n d pow2_pos [of ?s] pow2_pos [of "- ?s"]
    by (auto intro!: round_div_nonneg mult_nonneg_nonneg mult_pos_pos simp: less_imp_le)
  have v: "0 \<le> (if 0 \<le> ?s then rat_of_int (?m * pow2 ?s) else Fract ?m (pow2 (- ?s)))"
    using m pow2_pos [of ?s] pow2_pos [of "- ?s"]
    by (auto simp: zero_le_Fract_iff intro: mult_nonneg_nonneg less_imp_le)
  show ?thesis
    unfolding fl_pos [OF pos nd] Let_def using v by (simp split: if_splits)
qed

lemma sub_not_negative: "\<not> js_lt s q \<Longrightarrow> \<not> is_negative (js_sub s q)"
  by (cases s; cases q) (auto simp: js_sub_def js_neg_def fl_nonneg)


subsection \<open>Rounding is monotone\<close>








subsection \<open>The binary exponent\<close>






subsection \<open>The value of \<open>fl\<close> on a positive rational\<close>




subsection \<open>\<open>fl\<close> is monotone\<close>





lemma fl_zero: "fl 0 = Fin 0"
  by (simp add: fl_def)





subsection \<open>The arithmetic of \<open>round2\<close> is monotone\<close>













lemma zero_major: "js_div (Fin 0) (Fin 100) = Fin 0"
  by (simp add: fl_zero)

subsection \<open>The two handlers\<close>

lemma validate_cart_acc:
  "validate_cart err ps c acc =
     (case validate_cart err ps c [] of Inl r \<Rightarrow> Inl r | Inr its \<Rightarrow> Inr (acc @ its))"
proof (induction c arbitrary: acc)
  case Nil
  show ?case by simp
next
  case (Cons i rest)
  have step: "\<And>x. validate_cart err ps rest (acc @ [x]) =
      (case validate_cart err ps rest [x] of Inl r \<Rightarrow> Inl r | Inr its \<Rightarrow> Inr (acc @ its))"
  proof -
    fix x
    have "validate_cart err ps rest (acc @ [x]) =
        (case validate_cart err ps rest [] of Inl r \<Rightarrow> Inl r | Inr its \<Rightarrow> Inr ((acc @ [x]) @ its))"
      by (rule Cons.IH)
    moreover have "validate_cart err ps rest [x] =
        (case validate_cart err ps rest [] of Inl r \<Rightarrow> Inl r | Inr its \<Rightarrow> Inr ([x] @ its))"
      by (rule Cons.IH)
    ultimately show "validate_cart err ps rest (acc @ [x]) =
      (case validate_cart err ps rest [x] of Inl r \<Rightarrow> Inl r | Inr its \<Rightarrow> Inr (acc @ its))"
      by (simp split: sum.splits)
  qed
  show ?case
  proof (cases "entry_id i = [] \<or> \<not> truthy (entry_quantity i)")
    case True
    then show ?thesis using Cons.IH [of acc] by auto
  next
    case False
    show ?thesis
    proof (cases "doc_ref (entry_id i)")
      case None
      then show ?thesis using False by simp
    next
      case (Some k)
      show ?thesis
      proof (cases "ps k")
        case None
        then show ?thesis using False Some Cons.IH [of acc] by simp
      next
        case (Some p)
        then show ?thesis using False \<open>doc_ref (entry_id i) = Some k\<close> step [of "make_item i p"]
          by (simp add: Let_def)
      qed
    qed
  qed
qed

lemma retained_items_Cons:
  "retained_items ps (i # rest) =
     (if retained ps i then make_item i (the (product_of ps (entry_id i))) # retained_items ps rest
      else retained_items ps rest)"
  by (auto simp: retained_items_def retained_def List.map_filter_simps)

lemma validate_cart_retained:
  "\<forall>i \<in> set c. \<not> stops ps i \<Longrightarrow> validate_cart err ps c [] = Inr (retained_items ps c)"
proof (induction c)
  case Nil
  show ?case by (simp add: retained_items_def List.map_filter_simps)
next
  case (Cons i rest)
  then have IH: "validate_cart err ps rest [] = Inr (retained_items ps rest)" by simp
  from Cons.prems have ns: "\<not> short_of_stock ps i" and nb: "\<not> bad_reference i"
    by (simp_all add: stops_def)
  show ?case
  proof (cases "retained ps i")
    case False
    then show ?thesis
      using IH nb
      by (auto simp: retained_items_Cons retained_def bad_reference_def product_of_def
               split: option.splits)
  next
    case True
    then obtain k p where p: "doc_ref (entry_id i) = Some k" "ps k = Some p"
      by (auto simp: retained_def product_of_def split: option.splits)
    then have po: "product_of ps (entry_id i) = Some p" by (simp add: product_of_def)
    from True ns po have ok: "\<not> (case stock p of None \<Rightarrow> False | Some s \<Rightarrow> js_lt s (effective_quantity (entry_quantity i)))"
      by (simp add: short_of_stock_def)
    from True have t: "entry_id i \<noteq> []" "truthy (entry_quantity i)" by (auto simp: retained_def)
    have "validate_cart err ps (i # rest) [] = validate_cart err ps rest [make_item i p]"
      using t p ok by (simp add: Let_def)
    also have "\<dots> = Inr (make_item i p # retained_items ps rest)"
      by (subst validate_cart_acc) (simp add: IH)
    finally show ?thesis using True po by (simp add: retained_items_Cons)
  qed
qed

lemma validate_cart_stops:
  assumes "find (stops ps) c = Some i"
  shows "validate_cart err ps c acc =
           Inl (if bad_reference i then Thrown (err (entry_id i))
                else Returned (Response 400 (Json_error
                       (''Stock insuffisant: '' @ name (the (product_of ps (entry_id i)))))))"
  using assms
proof (induction c arbitrary: acc)
  case Nil
  then show ?case by simp
next
  case (Cons j rest)
  show ?case
  proof (cases "stops ps j")
    case True
    with Cons.prems have "j = i" by simp
    with True show ?thesis
      by (auto simp: stops_def bad_reference_def short_of_stock_def retained_def product_of_def
                     Let_def split: option.splits)
  next
    case False
    with Cons.prems have "find (stops ps) rest = Some i" by simp
    from Cons.IH [OF this] False show ?thesis
      by (auto simp: stops_def bad_reference_def short_of_stock_def retained_def product_of_def
                     Let_def split: option.splits)
  qed
qed

lemma find_stops_None: "(find (stops ps) c = None) = (\<forall>i \<in> set c. \<not> stops ps i)"
  by (auto simp: find_None_iff)

lemma retained_items_filter:
  "retained_items ps c = map (\<lambda>i. make_item i (the (product_of ps (entry_id i)))) (filter (retained ps) c)"
  by (induction c) (simp_all add: retained_items_Cons, simp add: retained_items_def List.map_filter_simps)


text \<open>The handler on a \<open>POST\<close> request with a cart and a buyer.\<close>

lemma checkout_valid:
  assumes "http_method req = ''POST''" and "cart req = Some c"
    and "truthy (uid (user req))" and "truthy (email (user req))"
  shows "createCheckoutSession env w req =
     (case find (stops (products w)) c of
        Some i \<Rightarrow>
          if bad_reference i
          then (Response 500 (Json_error (''Erreur serveur: '' @ reference_error env (entry_id i))), w)
          else (Response 400 (Json_error (''Stock insuffisant: '' @
                  name (the (product_of (products w) (entry_id i))))), w)
      | None \<Rightarrow>
          if retained_items (products w) c = [] then (Response 400 (Json_error ''Panier vide''), w)
          else
            let its = retained_items (products w) c;
                oid = new_order_id env;
                sreq = session_request_of req oid its;
                doc = pending_order env (user req) its
            in case processor env sreq of
                 Inl msg \<Rightarrow>
                   (Response 500 (Json_error (''Erreur serveur: '' @ msg)),
                    w\<lparr>orders := (orders w)(oid \<mapsto> doc),
                      trace := trace w @ [Order_created oid, Session_requested sreq]\<rparr>)
               | Inr session \<Rightarrow>
                   (Response 200 (Json_url (session_url session)),
                    w\<lparr>orders := (orders w)(oid \<mapsto> doc\<lparr>stripeSessionId := Some (session_id session)\<rparr>),
                      trace := trace w @ [Order_created oid, Session_requested sreq, Order_updated oid]\<rparr>))"
proof (cases "find (stops (products w)) c")
  case (Some i)
  then have "validate_cart (reference_error env) (products w) c [] =
      Inl (if bad_reference i then Thrown (reference_error env (entry_id i))
           else Returned (Response 400 (Json_error
                  (''Stock insuffisant: '' @ name (the (product_of (products w) (entry_id i)))))))"
    by (rule validate_cart_stops)
  then show ?thesis
    using assms Some by (simp add: createCheckoutSession_def)
next
  case None
  then have "validate_cart (reference_error env) (products w) c [] = Inr (retained_items (products w) c)"
    by (intro validate_cart_retained) (simp add: find_stops_None)
  then show ?thesis
    using assms None
    by (auto simp: createCheckoutSession_def Let_def orders_add_def sessions_create_def
                   orders_update_session_def split: sum.splits)
qed

lemma apply_writes_append:
  "apply_writes db (a @ b) = (case apply_writes db a of None \<Rightarrow> None | Some db' \<Rightarrow> apply_writes db' b)"
  by (induction a arbitrary: db) (auto split: option.splits)

lemma stock_after_Nil: "stock_after ps [] = ps"
proof
  fix k
  show "stock_after ps [] k = ps k"
    by (cases "ps k") (simp_all add: stock_after_def line_quantities_def)
qed

lemma stock_after_skip:
  "\<not> counted it \<Longrightarrow> stock_after ps (it # rest) = stock_after ps rest"
  by (simp add: stock_after_def line_quantities_def)

lemma stock_after_step:
  assumes "counted it" and "doc_ref (productId it) = Some k" and "ps k = Some p"
  shows "stock_after (ps(k \<mapsto> p\<lparr>stock := decrement (stock p) (qty it)\<rparr>)) rest
           = stock_after ps (it # rest)"
proof
  fix x
  show "stock_after (ps(k \<mapsto> p\<lparr>stock := decrement (stock p) (qty it)\<rparr>)) rest x
          = stock_after ps (it # rest) x"
    using assms by (cases "x = k") (auto simp: stock_after_def line_quantities_def)
qed

lemma increment_is_decrement:
  "Some (case s of None \<Rightarrow> js_neg q | Some x \<Rightarrow> js_add x (js_neg q)) = decrement s q"
  by (cases s) (simp_all add: decrement_def js_sub_def)

text \<open>The writes that the loop of the webhook queues, and what the store makes of them.\<close>

lemma stock_writes_decrements:
  "\<forall>it \<in> set its. counted it \<longrightarrow> doc_ref (productId it) \<noteq> None \<Longrightarrow>
     stock_writes its = Some (stock_decrements its)"
  by (induction its) (auto simp: stock_decrements_def counted_def)

lemma stock_writes_throws:
  "it \<in> set its \<Longrightarrow> counted it \<Longrightarrow> doc_ref (productId it) = None \<Longrightarrow> stock_writes its = None"
  by (induction its) (auto simp: counted_def split: option.splits)

lemma stock_decrements_Cons:
  "stock_decrements (it # rest) =
     (if counted it then Increment_stock (the (doc_ref (productId it))) (js_neg (qty it)) # stock_decrements rest
      else stock_decrements rest)"
  by (simp add: stock_decrements_def)

lemma stock_decrements_apply:
  "\<forall>it \<in> set its. counted it \<longrightarrow> product_of ps (productId it) \<noteq> None \<Longrightarrow>
     apply_writes (ps, os) (stock_decrements its) = Some (stock_after ps its, os)"
proof (induction its arbitrary: ps)
  case Nil
  show ?case by (simp add: stock_after_Nil stock_decrements_def)
next
  case (Cons it rest)
  show ?case
  proof (cases "counted it")
    case False
    then have "stock_decrements (it # rest) = stock_decrements rest" by (simp add: stock_decrements_Cons)
    moreover have "apply_writes (ps, os) (stock_decrements rest) = Some (stock_after ps rest, os)"
      using Cons.prems by (intro Cons.IH) simp
    ultimately show ?thesis using False by (simp add: stock_after_skip)
  next
    case True
    with Cons.prems obtain k p where p: "doc_ref (productId it) = Some k" "ps k = Some p"
      by (auto simp: product_of_def split: option.splits)
    let ?ps = "ps(k \<mapsto> p\<lparr>stock := decrement (stock p) (qty it)\<rparr>)"
    have sw: "stock_decrements (it # rest) = Increment_stock k (js_neg (qty it)) # stock_decrements rest"
      using True p by (simp add: stock_decrements_Cons)
    have one: "apply_write (ps, os) (Increment_stock k (js_neg (qty it))) = Some (?ps, os)"
      using p by (simp add: increment_is_decrement)
    have "\<forall>x \<in> set rest. counted x \<longrightarrow> product_of ?ps (productId x) \<noteq> None"
      using Cons.prems by (auto simp: product_of_def split: option.splits)
    then have "apply_writes (?ps, os) (stock_decrements rest) = Some (stock_after ?ps rest, os)"
      by (rule Cons.IH)
    then show ?thesis
      unfolding sw using one stock_after_step [of it k ps p rest] True p by simp
  qed
qed

lemma stock_decrements_missing:
  "it \<in> set its \<Longrightarrow> counted it \<Longrightarrow> doc_ref (productId it) = Some k \<Longrightarrow> ps k = None \<Longrightarrow>
     \<forall>x \<in> set its. counted x \<longrightarrow> doc_ref (productId x) \<noteq> None \<Longrightarrow>
     apply_writes (ps, os) (stock_decrements its) = None"
proof (induction its arbitrary: ps)
  case Nil
  then show ?case by simp
next
  case (Cons a rest)
  show ?case
  proof (cases "counted a")
    case False
    then have sw: "stock_decrements (a # rest) = stock_decrements rest" by (simp add: stock_decrements_Cons)
    from False Cons.prems have "it \<in> set rest" by auto
    then show ?thesis unfolding sw using Cons.prems by (intro Cons.IH) simp_all
  next
    case True
    with Cons.prems obtain ka where ka: "doc_ref (productId a) = Some ka" by auto
    have sw: "stock_decrements (a # rest) = Increment_stock ka (js_neg (qty a)) # stock_decrements rest"
      using True ka by (simp add: stock_decrements_Cons)
    show ?thesis
    proof (cases "ps ka")
      case None
      then show ?thesis unfolding sw by simp
    next
      case (Some p)
      let ?ps = "ps(ka \<mapsto> p\<lparr>stock := decrement (stock p) (qty a)\<rparr>)"
      have one: "apply_write (ps, os) (Increment_stock ka (js_neg (qty a))) = Some (?ps, os)"
        using Some by (simp add: increment_is_decrement)
      from Some Cons.prems have ne: "k \<noteq> ka" by auto
      with Cons.prems ka have "it \<noteq> a" by auto
      with Cons.prems have "it \<in> set rest" by simp
      moreover have "?ps k = None" using ne Cons.prems by simp
      ultimately have "apply_writes (?ps, os) (stock_decrements rest) = None"
        using Cons.prems(2,3,5) by (intro Cons.IH) simp_all
      then show ?thesis unfolding sw using one by simp
    qed
  qed
qed

text \<open>The webhook on a matching delivery.\<close>

lemma webhook_matching:
  assumes ev: "constructEvent env (rawBody req) (stripe_signature req) = Inr ev"
    and ty: "event_type ev = ''checkout.session.completed''"
    and oid: "firebaseOrderId (data_object ev) = Some oid" "doc_ref oid = Some k"
    and doc: "orders w k = Some doc"
  shows "stripeWebhook env w req =
     (if \<forall>it \<in> set (items doc). counted it \<longrightarrow> product_of (products w) (productId it) \<noteq> None
      then (Response 200 Empty,
            w\<lparr>products := stock_after (products w) (items doc),
               orders := (orders w)(k \<mapsto> paid_order doc (paid_update env (data_object ev))),
               trace := trace w @ [Batch_committed (stock_decrements (items doc) @
                                     [Update_order k (paid_update env (data_object ev))])]\<rparr>)
      else (Response 500 (Text ''Webhook handling error''), w))"
proof -
  have ne: "oid \<noteq> []" using oid(2) by (auto simp: doc_ref_def)
  show ?thesis
  proof (cases "\<forall>it \<in> set (items doc). counted it \<longrightarrow> product_of (products w) (productId it) \<noteq> None")
    case True
    then have refs: "\<forall>it \<in> set (items doc). counted it \<longrightarrow> doc_ref (productId it) \<noteq> None"
      by (fastforce simp: product_of_def split: option.splits)
    then have sw: "stock_writes (items doc) = Some (stock_decrements (items doc))"
      by (rule stock_writes_decrements)
    from True have "apply_writes (products w, orders w) (stock_decrements (items doc))
                 = Some (stock_after (products w) (items doc), orders w)"
      by (rule stock_decrements_apply)
    then have "batch_commit w (stock_decrements (items doc) @ [Update_order k (paid_update env (data_object ev))])
        = Some (w\<lparr>products := stock_after (products w) (items doc),
                 orders := (orders w)(k \<mapsto> paid_order doc (paid_update env (data_object ev))),
                 trace := trace w @ [Batch_committed (stock_decrements (items doc) @
                                       [Update_order k (paid_update env (data_object ev))])]\<rparr>)"
      using doc by (simp add: batch_commit_def apply_writes_append paid_order_def)
    then show ?thesis
      using True ev ty oid ne doc sw by (simp add: stripeWebhook_def Let_def)
  next
    case False
    then obtain it where it: "it \<in> set (items doc)" "counted it"
      "product_of (products w) (productId it) = None"
      by auto
    show ?thesis
    proof (cases "\<forall>x \<in> set (items doc). counted x \<longrightarrow> doc_ref (productId x) \<noteq> None")
      case True
      then have sw: "stock_writes (items doc) = Some (stock_decrements (items doc))"
        by (rule stock_writes_decrements)
      from True it obtain kp where kp: "doc_ref (productId it) = Some kp" by auto
      with it(3) have "products w kp = None" by (simp add: product_of_def)
      with it kp True
      have "apply_writes (products w, orders w) (stock_decrements (items doc)) = None"
        by (intro stock_decrements_missing [of it _ kp]) simp_all
      then have "batch_commit w (stock_decrements (items doc) @ [Update_order k (paid_update env (data_object ev))]) = None"
        by (simp add: batch_commit_def apply_writes_append)
      then show ?thesis
        using False ev ty oid ne doc sw by (simp add: stripeWebhook_def Let_def)
    next
      case nr: False
      then obtain x where "x \<in> set (items doc)" "counted x" "doc_ref (productId x) = None"
        by auto
      then have "stock_writes (items doc) = None" by (rule stock_writes_throws)
      then show ?thesis
        using False ev ty oid ne doc by (simp add: stripeWebhook_def Let_def)
    qed
  qed
qed

lemma ex_refs:
  "doc_ref ''p1'' = Some ''p1''" "doc_ref ''o1'' = Some ''o1''" "doc_ref ''o7'' = Some ''o7''"
  "doc_ref ''a/b'' = None" "doc_ref ''p1/'' = Some ''p1''" "doc_ref ''zz'' = Some ''zz''"
  by (simp_all add: doc_ref_def)

text \<open>
  C2, as the code has it. The webhook leaves the store untouched unless the request
  matches: the signature verifies, the event is a completed checkout session, the
  metadata carries an order identifier, the identifier is the path of a document and that
  order exists. A signature that fails is answered with status 400 and the message of the
  verification, before anything of the payload is read. A verified completed session
  whose order identifier is not the path of a document is answered with status 500.
  Every other request that does not match is answered with status 200.
\<close>

theorem webhook_mutates_only_on_match:
  "(\<not> matches env w req \<longrightarrow> snd (stripeWebhook env w req) = w) \<and>
   (constructEvent env (rawBody req) (stripe_signature req) = Inl msg \<longrightarrow>
      stripeWebhook env w req = (Response 400 (Text (''Webhook Error: '' @ msg)), w)) \<and>
   (unreadable_reference env req \<longrightarrow>
      stripeWebhook env w req = (Response 500 (Text ''Webhook handling error''), w)) \<and>
   (\<not> signature_fails env req \<and> \<not> matches env w req \<and> \<not> unreadable_reference env req \<longrightarrow>
      stripeWebhook env w req = (Response 200 Empty, w))"
  by (auto simp: matches_def signature_fails_def unreadable_reference_def stripeWebhook_def Let_def
           split: sum.splits option.splits)

theorem webhook_mutates_only_on_match_witness:
  "\<not> matches (ex_webhook_env (ex_event ''o1'' None None)) ex_pending (ex_delivery ''forged'') \<and>
   stripeWebhook (ex_webhook_env (ex_event ''o1'' None None)) ex_pending (ex_delivery ''forged'')
     = (Response 400 (Text ''Webhook Error: bad signature''), ex_pending) \<and>
   \<not> signature_fails (ex_webhook_env (ex_event ''o7'' None None)) (ex_delivery ''good'') \<and>
   \<not> matches (ex_webhook_env (ex_event ''o7'' None None)) ex_pending (ex_delivery ''good'') \<and>
   \<not> unreadable_reference (ex_webhook_env (ex_event ''o7'' None None)) (ex_delivery ''good'') \<and>
   stripeWebhook (ex_webhook_env (ex_event ''o7'' None None)) ex_pending (ex_delivery ''good'')
     = (Response 200 Empty, ex_pending) \<and>
   unreadable_reference (ex_webhook_env (ex_event ''a/b'' None None)) (ex_delivery ''good'') \<and>
   stripeWebhook (ex_webhook_env (ex_event ''a/b'' None None)) ex_pending (ex_delivery ''good'')
     = (Response 500 (Text ''Webhook handling error''), ex_pending)"
proof -
  let ?bad = "ex_webhook_env (ex_event ''o1'' None None)"
  let ?other = "ex_webhook_env (ex_event ''o7'' None None)"
  let ?slash = "ex_webhook_env (ex_event ''a/b'' None None)"
  have forged: "constructEvent ?bad (rawBody (ex_delivery ''forged'')) (stripe_signature (ex_delivery ''forged''))
                  = Inl ''bad signature''"
    by (simp add: ex_webhook_env_def ex_delivery_def)
  have nomatch1: "\<not> matches ?bad ex_pending (ex_delivery ''forged'')"
    by (simp add: matches_def forged)
  have verified: "\<not> signature_fails ?other (ex_delivery ''good'')"
    by (simp add: signature_fails_def ex_webhook_env_def ex_delivery_def)
  have nomatch2: "\<not> matches ?other ex_pending (ex_delivery ''good'')"
    by (simp add: matches_def ex_webhook_env_def ex_delivery_def ex_event_def ex_pending_def ex_refs)
  have readable: "\<not> unreadable_reference ?other (ex_delivery ''good'')"
    by (simp add: unreadable_reference_def ex_webhook_env_def ex_delivery_def ex_event_def ex_refs)
  have unreadable: "unreadable_reference ?slash (ex_delivery ''good'')"
    by (simp add: unreadable_reference_def ex_webhook_env_def ex_delivery_def ex_event_def ex_refs)
  from webhook_mutates_only_on_match [of ?bad ex_pending "ex_delivery ''forged''" "''bad signature''"]
       webhook_mutates_only_on_match [of ?other ex_pending "ex_delivery ''good''" "[]"]
       webhook_mutates_only_on_match [of ?slash ex_pending "ex_delivery ''good''" "[]"]
       forged nomatch1 verified nomatch2 readable unreadable
  show ?thesis by simp
qed

text \<open>
  C2 as it is stated fails on a verified completed session whose metadata carries the
  order identifier \<open>a/b\<close>: the request does not match, and it is answered with status
  500, not acknowledged with 200.
\<close>

theorem webhook_unreadable_reference_counterexample:
  "\<not> signature_fails (ex_webhook_env (ex_event ''a/b'' None None)) (ex_delivery ''good'') \<and>
   \<not> matches (ex_webhook_env (ex_event ''a/b'' None None)) ex_pending (ex_delivery ''good'') \<and>
   orders ex_pending ''a/b'' = None \<and>
   stripeWebhook (ex_webhook_env (ex_event ''a/b'' None None)) ex_pending (ex_delivery ''good'')
     = (Response 500 (Text ''Webhook handling error''), ex_pending)"
  by (simp add: signature_fails_def matches_def stripeWebhook_def ex_webhook_env_def
        ex_delivery_def ex_event_def ex_pending_def ex_refs)

lemma ex_taxes: "round2 (js_sub (decimal 2258 2) (decimal 1998 2)) = decimal 260 2"
  by code_simp

lemma ex_reported_subtotal: "major_units (Some (Fin 1998)) = decimal 1998 2"
  by code_simp

lemma ex_total: "major_units (Some (Fin 2258)) = decimal 2258 2"
  by code_simp

lemma ex_decrement: "decrement (Some (Fin 5)) (Fin 2) = Some (Fin 3)"
  by code_simp

text \<open>
  C1, as the code has it. For a verified completed-session event whose metadata names an
  existing order, and when the reference of every counted line of the order is the path
  of an existing product, the webhook answers 200 after one batch that sets the order to
  \<open>paid\<close> with the total of the event (minor units over 100), the taxes
  \<open>round2 (total - subtotal)\<close>, both sub-taxes zero, the payment intent and the commit
  time, and that lowers the stock of each product by the quantities of the counted lines
  that refer to it (by exactly the quantity of the line when there is one such line).
  When the reference of a counted line is not the path of an existing product, nothing
  is committed: the answer is 500 and nothing has changed. No state in between exists:
  the result is one of these two.
\<close>

theorem webhook_pays_in_one_batch:
  assumes "constructEvent env (rawBody req) (stripe_signature req) = Inr ev"
    and "event_type ev = ''checkout.session.completed''"
    and "firebaseOrderId (data_object ev) = Some oid" and "doc_ref oid = Some k"
    and "orders w k = Some doc"
  shows "stripeWebhook env w req =
     (if \<forall>it \<in> set (items doc). counted it \<longrightarrow> product_of (products w) (productId it) \<noteq> None
      then (Response 200 Empty,
            w\<lparr>products := stock_after (products w) (items doc),
               orders := (orders w)(k \<mapsto>
                 doc\<lparr>status := ''paid'',
                     taxes := round2 (js_sub (major_units (amount_total (data_object ev)))
                                             (major_units (amount_subtotal (data_object ev)))),
                     total := major_units (amount_total (data_object ev)),
                     tps := Fin 0, tvq := Fin 0,
                     stripePaymentIntentId := payment_intent (data_object ev),
                     paidAt := Some (commit_time env)\<rparr>),
               trace := trace w @ [Batch_committed (stock_decrements (items doc) @
                                     [Update_order k (paid_update env (data_object ev))])]\<rparr>)
      else (Response 500 (Text ''Webhook handling error''), w)) \<and>
     (\<forall>pk p q. products w pk = Some p \<and> line_quantities (items doc) pk = [q] \<longrightarrow>
        stock_after (products w) (items doc) pk = Some (p\<lparr>stock := decrement (stock p) q\<rparr>))"
proof -
  have "paid_order doc (paid_update env (data_object ev)) =
          doc\<lparr>status := ''paid'',
              taxes := round2 (js_sub (major_units (amount_total (data_object ev)))
                                      (major_units (amount_subtotal (data_object ev)))),
              total := major_units (amount_total (data_object ev)),
              tps := Fin 0, tvq := Fin 0,
              stripePaymentIntentId := payment_intent (data_object ev),
              paidAt := Some (commit_time env)\<rparr>"
    by (simp add: paid_order_def paid_update_def)
  with webhook_matching [OF assms] show ?thesis
    by (simp add: stock_after_def)
qed

lemma ex_webhook_simps:
  "constructEvent (ex_webhook_env e) (rawBody (ex_delivery ''good'')) (stripe_signature (ex_delivery ''good'')) = Inr e"
  "event_type (ex_event x t st) = ''checkout.session.completed''"
  "firebaseOrderId (data_object (ex_event x t st)) = Some x"
  "amount_total (data_object (ex_event x t st)) = t"
  "amount_subtotal (data_object (ex_event x t st)) = st"
  "payment_intent (data_object (ex_event x t st)) = Some ''pi_1''"
  "commit_time (ex_webhook_env e) = 20"
  by (simp_all add: ex_webhook_env_def ex_delivery_def ex_event_def)

lemma ex_order_lines:
  "line_quantities (items ex_order) ''p1'' = [Fin 2]"
  "\<forall>it \<in> set (items ex_order). counted it \<longrightarrow> product_of (products ex_pending) (productId it) \<noteq> None"
  "orders ex_pending ''o1'' = Some ex_order"
  "products ex_pending ''p1'' = Some ex_product"
  by (simp_all add: line_quantities_def ex_order_def counted_def ex_pending_def product_of_def ex_refs)

theorem webhook_pays_in_one_batch_witness:
  "constructEvent (ex_webhook_env ex_paid_event) (rawBody (ex_delivery ''good''))
      (stripe_signature (ex_delivery ''good'')) = Inr ex_paid_event \<and>
   event_type ex_paid_event = ''checkout.session.completed'' \<and>
   firebaseOrderId (data_object ex_paid_event) = Some ''o1'' \<and>
   doc_ref ''o1'' = Some ''o1'' \<and>
   orders ex_pending ''o1'' = Some ex_order \<and>
   fst (stripeWebhook (ex_webhook_env ex_paid_event) ex_pending (ex_delivery ''good'')) = Response 200 Empty \<and>
   orders (snd (stripeWebhook (ex_webhook_env ex_paid_event) ex_pending (ex_delivery ''good''))) ''o1''
     = Some (ex_order\<lparr>status := ''paid'', taxes := decimal 260 2, total := decimal 2258 2,
                      stripePaymentIntentId := Some ''pi_1'', paidAt := Some 20\<rparr>) \<and>
   products (snd (stripeWebhook (ex_webhook_env ex_paid_event) ex_pending (ex_delivery ''good''))) ''p1''
     = Some (ex_product\<lparr>stock := Some (Fin 3)\<rparr>)"
proof -
  have ev: "constructEvent (ex_webhook_env ex_paid_event) (rawBody (ex_delivery ''good''))
      (stripe_signature (ex_delivery ''good'')) = Inr ex_paid_event"
    by (rule ex_webhook_simps)
  have ty: "event_type ex_paid_event = ''checkout.session.completed''"
    by (simp add: ex_paid_event_def ex_webhook_simps)
  have oid: "firebaseOrderId (data_object ex_paid_event) = Some ''o1''"
    by (simp add: ex_paid_event_def ex_webhook_simps)
  have amounts: "amount_total (data_object ex_paid_event) = Some (Fin 2258)"
    "amount_subtotal (data_object ex_paid_event) = Some (Fin 1998)"
    "payment_intent (data_object ex_paid_event) = Some ''pi_1''"
    "commit_time (ex_webhook_env ex_paid_event) = 20"
    by (simp_all add: ex_paid_event_def ex_webhook_simps)
  have zero: "tps ex_order = Fin 0" "tvq ex_order = Fin 0" "stock ex_product = Some (Fin 5)"
    by (simp_all add: ex_order_def ex_product_def)
  from webhook_pays_in_one_batch [OF ev ty oid ex_refs(2) ex_order_lines(3)] ex_order_lines(2)
  have run: "stripeWebhook (ex_webhook_env ex_paid_event) ex_pending (ex_delivery ''good'') =
      (Response 200 Empty,
       ex_pending\<lparr>products := stock_after (products ex_pending) (items ex_order),
         orders := (orders ex_pending)(''o1'' \<mapsto>
           ex_order\<lparr>status := ''paid'', taxes := decimal 260 2, total := decimal 2258 2,
                    tps := Fin 0, tvq := Fin 0,
                    stripePaymentIntentId := Some ''pi_1'', paidAt := Some 20\<rparr>),
         trace := trace ex_pending @ [Batch_committed (stock_decrements (items ex_order) @
                    [Update_order ''o1'' (paid_update (ex_webhook_env ex_paid_event) (data_object ex_paid_event))])]\<rparr>)"
    and one: "stock_after (products ex_pending) (items ex_order) ''p1''
                = Some (ex_product\<lparr>stock := decrement (stock ex_product) (Fin 2)\<rparr>)"
    using ex_order_lines(1,4) by (simp_all add: amounts ex_taxes ex_total ex_reported_subtotal)
  have same: "ex_order\<lparr>status := ''paid'', taxes := decimal 260 2, total := decimal 2258 2,
                    tps := Fin 0, tvq := Fin 0,
                    stripePaymentIntentId := Some ''pi_1'', paidAt := Some 20\<rparr>
              = ex_order\<lparr>status := ''paid'', taxes := decimal 260 2, total := decimal 2258 2,
                      stripePaymentIntentId := Some ''pi_1'', paidAt := Some 20\<rparr>"
    using zero by simp
  show ?thesis
    using ev ty oid ex_order_lines(3) one by (simp add: run same zero ex_decrement ex_refs)
qed

text \<open>
  C1 as it is stated fails where a line of the order names a product that was deleted:
  the request matches, the answer is 500 and the order stays \<open>pending\<close>.
\<close>

theorem webhook_deleted_product_counterexample:
  "matches (ex_webhook_env ex_paid_event) ex_deleted (ex_delivery ''good'') \<and>
   stripeWebhook (ex_webhook_env ex_paid_event) ex_deleted (ex_delivery ''good'')
     = (Response 500 (Text ''Webhook handling error''), ex_deleted) \<and>
   map_option status (orders (snd (stripeWebhook (ex_webhook_env ex_paid_event) ex_deleted (ex_delivery ''good''))) ''o1'')
     = Some ''pending''"
proof -
  have ev: "constructEvent (ex_webhook_env ex_paid_event) (rawBody (ex_delivery ''good''))
      (stripe_signature (ex_delivery ''good'')) = Inr ex_paid_event"
    by (rule ex_webhook_simps)
  have ty: "event_type ex_paid_event = ''checkout.session.completed''"
    by (simp add: ex_paid_event_def ex_webhook_simps)
  have oid: "firebaseOrderId (data_object ex_paid_event) = Some ''o1''"
    by (simp add: ex_paid_event_def ex_webhook_simps)
  have doc: "orders ex_deleted ''o1'' = Some ex_order"
    by (simp add: ex_deleted_def)
  have missing: "\<not> (\<forall>it \<in> set (items ex_order). counted it \<longrightarrow> product_of (products ex_deleted) (productId it) \<noteq> None)"
    by (simp add: ex_order_def ex_deleted_def counted_def product_of_def ex_refs)
  have run: "stripeWebhook (ex_webhook_env ex_paid_event) ex_deleted (ex_delivery ''good'')
     = (Response 500 (Text ''Webhook handling error''), ex_deleted)"
    using webhook_matching [OF ev ty oid ex_refs(2) doc] missing by simp
  have m: "matches (ex_webhook_env ex_paid_event) ex_deleted (ex_delivery ''good'')"
    by (simp add: matches_def ev ty oid doc ex_refs)
  have st: "status ex_order = ''pending''" by (simp add: ex_order_def)
  show ?thesis using m doc st by (simp add: run)
qed

lemma stock_after_exists: "(stock_after ps its k = None) = (ps k = None)"
  by (simp add: stock_after_def)

lemma stock_after_one:
  "ps k = Some p \<Longrightarrow> line_quantities its k = [q] \<Longrightarrow>
     stock_after ps its k = Some (p\<lparr>stock := decrement (stock p) q\<rparr>)"
  by (simp add: stock_after_def)

lemma paid_order_again:
  "paid_order (paid_order doc (paid_update env1 session)) (paid_update env2 session)
     = (paid_order doc (paid_update env1 session))\<lparr>paidAt := Some (commit_time env2)\<rparr>"
  by (simp add: paid_order_def paid_update_def)

lemma paid_order_items: "items (paid_order doc u) = items doc"
  by (simp add: paid_order_def)

lemma product_of_stock_after:
  "(product_of (stock_after ps its) path = None) = (product_of ps path = None)"
  by (simp add: product_of_def stock_after_exists split: option.splits)

text \<open>
  C8. The same verified completion event delivered twice, the second delivery being
  committed at a time of its own: both deliveries are answered 200; the order is \<open>paid\<close>
  after the first, and the second rewrites it with the same values and its own payment
  time; the stock of every product is decremented by the line quantities once more, no
  guard looking at the status of the order.
\<close>

theorem webhook_replay_decrements_twice:
  assumes "constructEvent env1 (rawBody req1) (stripe_signature req1) = Inr ev"
    and "constructEvent env2 (rawBody req2) (stripe_signature req2) = Inr ev"
    and "event_type ev = ''checkout.session.completed''"
    and "firebaseOrderId (data_object ev) = Some oid" and "doc_ref oid = Some k"
    and "orders w k = Some doc"
    and "\<forall>it \<in> set (items doc). counted it \<longrightarrow> product_of (products w) (productId it) \<noteq> None"
  shows "\<exists>w1 w2 doc1.
     stripeWebhook env1 w req1 = (Response 200 Empty, w1) \<and>
     stripeWebhook env2 w1 req2 = (Response 200 Empty, w2) \<and>
     orders w1 k = Some doc1 \<and> status doc1 = ''paid'' \<and> paidAt doc1 = Some (commit_time env1) \<and>
     orders w2 = (orders w1)(k \<mapsto> doc1\<lparr>paidAt := Some (commit_time env2)\<rparr>) \<and>
     products w1 = stock_after (products w) (items doc) \<and>
     products w2 = stock_after (stock_after (products w) (items doc)) (items doc) \<and>
     (\<forall>pk p q. products w pk = Some p \<and> line_quantities (items doc) pk = [q] \<longrightarrow>
        products w1 pk = Some (p\<lparr>stock := decrement (stock p) q\<rparr>) \<and>
        products w2 pk = Some (p\<lparr>stock := decrement (decrement (stock p) q) q\<rparr>))"
proof -
  let ?u1 = "paid_update env1 (data_object ev)"
  let ?u2 = "paid_update env2 (data_object ev)"
  let ?doc1 = "paid_order doc ?u1"
  let ?w1 = "w\<lparr>products := stock_after (products w) (items doc),
               orders := (orders w)(k \<mapsto> ?doc1),
               trace := trace w @ [Batch_committed (stock_decrements (items doc) @ [Update_order k ?u1])]\<rparr>"
  let ?w2 = "?w1\<lparr>products := stock_after (products ?w1) (items doc),
               orders := (orders ?w1)(k \<mapsto> paid_order ?doc1 ?u2),
               trace := trace ?w1 @ [Batch_committed (stock_decrements (items doc) @ [Update_order k ?u2])]\<rparr>"
  have first: "stripeWebhook env1 w req1 = (Response 200 Empty, ?w1)"
    using webhook_matching [OF assms(1,3,4,5,6)] assms(7) by simp
  have doc1: "orders ?w1 k = Some ?doc1" by simp
  have all1: "\<forall>it \<in> set (items ?doc1). counted it \<longrightarrow> product_of (products ?w1) (productId it) \<noteq> None"
    using assms(7) by (simp add: paid_order_items product_of_stock_after)
  have second: "stripeWebhook env2 ?w1 req2 = (Response 200 Empty, ?w2)"
    using webhook_matching [OF assms(2,3,4,5) doc1] all1 by (simp add: paid_order_items)
  have paid: "status ?doc1 = ''paid''" "paidAt ?doc1 = Some (commit_time env1)"
    by (simp_all add: paid_order_def paid_update_def)
  have again: "orders ?w2 = (orders ?w1)(k \<mapsto> ?doc1\<lparr>paidAt := Some (commit_time env2)\<rparr>)"
    by (simp add: paid_order_again)
  have twice: "products ?w2 pk = Some (p\<lparr>stock := decrement (decrement (stock p) q) q\<rparr>)"
    if "products w pk = Some p" "line_quantities (items doc) pk = [q]" for pk p q
  proof -
    have "products ?w1 pk = Some (p\<lparr>stock := decrement (stock p) q\<rparr>)"
      using that by (simp add: stock_after_one)
    then have "stock_after (products ?w1) (items doc) pk
                 = Some (p\<lparr>stock := decrement (stock p) q, stock := decrement (decrement (stock p) q) q\<rparr>)"
      using that(2) stock_after_one [of "products ?w1" pk "p\<lparr>stock := decrement (stock p) q\<rparr>" "items doc" q]
      by simp
    then show ?thesis by simp
  qed
  have once: "products ?w1 pk = Some (p\<lparr>stock := decrement (stock p) q\<rparr>)"
    if "products w pk = Some p" "line_quantities (items doc) pk = [q]" for pk p q
    using that by (simp add: stock_after_one)
  have "stripeWebhook env1 w req1 = (Response 200 Empty, ?w1) \<and>
     stripeWebhook env2 ?w1 req2 = (Response 200 Empty, ?w2) \<and>
     orders ?w1 k = Some ?doc1 \<and> status ?doc1 = ''paid'' \<and> paidAt ?doc1 = Some (commit_time env1) \<and>
     orders ?w2 = (orders ?w1)(k \<mapsto> ?doc1\<lparr>paidAt := Some (commit_time env2)\<rparr>) \<and>
     products ?w1 = stock_after (products w) (items doc) \<and>
     products ?w2 = stock_after (stock_after (products w) (items doc)) (items doc) \<and>
     (\<forall>pk p q. products w pk = Some p \<and> line_quantities (items doc) pk = [q] \<longrightarrow>
        products ?w1 pk = Some (p\<lparr>stock := decrement (stock p) q\<rparr>) \<and>
        products ?w2 pk = Some (p\<lparr>stock := decrement (decrement (stock p) q) q\<rparr>))"
    using first second doc1 paid again once twice by simp
  then show ?thesis by blast
qed

lemma ex_decrement_again: "decrement (Some (Fin 3)) (Fin 2) = Some (Fin 1)"
  by code_simp

theorem webhook_replay_decrements_twice_witness:
  "\<exists>w1 w2.
     stripeWebhook (ex_webhook_env ex_paid_event) ex_pending (ex_delivery ''good'') = (Response 200 Empty, w1) \<and>
     stripeWebhook ((ex_webhook_env ex_paid_event)\<lparr>commit_time := 30\<rparr>) w1 (ex_delivery ''good'')
       = (Response 200 Empty, w2) \<and>
     map_option status (orders w1 ''o1'') = Some ''paid'' \<and>
     map_option paidAt (orders w1 ''o1'') = Some (Some 20) \<and>
     map_option status (orders w2 ''o1'') = Some ''paid'' \<and>
     map_option paidAt (orders w2 ''o1'') = Some (Some 30) \<and>
     map_option stock (products ex_pending ''p1'') = Some (Some (Fin 5)) \<and>
     map_option stock (products w1 ''p1'') = Some (Some (Fin 3)) \<and>
     map_option stock (products w2 ''p1'') = Some (Some (Fin 1))"
proof -
  let ?env1 = "ex_webhook_env ex_paid_event"
  let ?env2 = "(ex_webhook_env ex_paid_event)\<lparr>commit_time := 30\<rparr>"
  have ev: "constructEvent ?env1 (rawBody (ex_delivery ''good'')) (stripe_signature (ex_delivery ''good'')) = Inr ex_paid_event"
    by (rule ex_webhook_simps)
  have ev2: "constructEvent ?env2 (rawBody (ex_delivery ''good'')) (stripe_signature (ex_delivery ''good'')) = Inr ex_paid_event"
    by (simp add: ex_webhook_simps)
  have ty: "event_type ex_paid_event = ''checkout.session.completed''"
    by (simp add: ex_paid_event_def ex_webhook_simps)
  have oid: "firebaseOrderId (data_object ex_paid_event) = Some ''o1''"
    by (simp add: ex_paid_event_def ex_webhook_simps)
  have st: "stock ex_product = Some (Fin 5)" by (simp add: ex_product_def)
  have t: "commit_time ?env1 = 20" "commit_time ?env2 = 30" by (simp_all add: ex_webhook_simps)
  from webhook_replay_decrements_twice [OF ev ev2 ty oid ex_refs(2) ex_order_lines(3) ex_order_lines(2)]
  obtain w1 w2 doc1 where run:
    "stripeWebhook ?env1 ex_pending (ex_delivery ''good'') = (Response 200 Empty, w1)"
    "stripeWebhook ?env2 w1 (ex_delivery ''good'') = (Response 200 Empty, w2)"
    and d: "orders w1 ''o1'' = Some doc1" "status doc1 = ''paid''" "paidAt doc1 = Some (commit_time ?env1)"
    "orders w2 = (orders w1)(''o1'' \<mapsto> doc1\<lparr>paidAt := Some (commit_time ?env2)\<rparr>)"
    and stocks: "\<forall>pk p q. products ex_pending pk = Some p \<and> line_quantities (items ex_order) pk = [q] \<longrightarrow>
        products w1 pk = Some (p\<lparr>stock := decrement (stock p) q\<rparr>) \<and>
        products w2 pk = Some (p\<lparr>stock := decrement (decrement (stock p) q) q\<rparr>)"
    by blast
  from stocks ex_order_lines(1,4) have
    "products w1 ''p1'' = Some (ex_product\<lparr>stock := decrement (stock ex_product) (Fin 2)\<rparr>)"
    "products w2 ''p1'' = Some (ex_product\<lparr>stock := decrement (decrement (stock ex_product) (Fin 2)) (Fin 2)\<rparr>)"
    by blast+
  then have s: "map_option stock (products w1 ''p1'') = Some (Some (Fin 3))"
    "map_option stock (products w2 ''p1'') = Some (Some (Fin 1))"
    by (simp_all add: st ex_decrement ex_decrement_again)
  have o: "map_option status (orders w1 ''o1'') = Some ''paid''"
    "map_option paidAt (orders w1 ''o1'') = Some (Some 20)"
    "map_option status (orders w2 ''o1'') = Some ''paid''"
    "map_option paidAt (orders w2 ''o1'') = Some (Some 30)"
    using d t by simp_all
  have p: "map_option stock (products ex_pending ''p1'') = Some (Some (Fin 5))"
    by (simp add: ex_order_lines st)
  from run s o p show ?thesis by blast
qed

lemma ex_p1: "products ex_world ''p1'' = Some ex_product"
  by (simp add: ex_world_def)

lemma ex_product_of: "product_of (products ex_world) ''p1'' = Some ex_product"
  by (simp add: product_of_def ex_refs ex_p1)

lemma ex_quantity_2: "effective_quantity (JNum (Fin 2)) = Fin 2"
  by code_simp

lemma ex_quantity_9: "effective_quantity (JNum (Fin 9)) = Fin 9"
  by code_simp

lemma ex_quantity_fraction: "effective_quantity (JNum (decimal 59 1)) = Fin 5"
  by code_simp

lemma ex_fraction: "js_lt (Fin 5) (decimal 59 1)" "truthy_num (decimal 59 1)"
  by code_simp+

lemma ex_request_simps:
  "http_method (ex_request c) = ''POST''" "cart (ex_request c) = Some c"
  "truthy (uid (user (ex_request c)))" "truthy (email (user (ex_request c)))"
  by (simp_all add: ex_request_def ex_user_def)

lemma ex_entry_simps:
  "entry_id (ex_entry q) = ''p1''" "entry_quantity (ex_entry q) = q"
  "entry_id (ex_entry_at x q) = x" "entry_quantity (ex_entry_at x q) = q"
  by (simp_all add: ex_entry_def ex_entry_at_def)

text \<open>
  C3, as the code has it. On a \<open>POST\<close> request with a cart and a buyer, when the first
  entry at which the loop stops is short of stock, that is retained with a product whose
  numeric stock is below the quantity that the handler derives from the entry
  (\<open>Math.max(1, parseInt(quantity))\<close>), the answer is 400 with a message that names the
  product of that entry, and the world is as before: no order, no write, no call of the
  processor.
\<close>

theorem checkout_rejects_short_stock:
  assumes "http_method req = ''POST''" and "cart req = Some c"
    and "truthy (uid (user req))" and "truthy (email (user req))"
    and "find (stops (products w)) c = Some i" and "short_of_stock (products w) i"
  shows "\<exists>p. i \<in> set c \<and> product_of (products w) (entry_id i) = Some p \<and>
           createCheckoutSession env w req =
             (Response 400 (Json_error (''Stock insuffisant: '' @ name p)), w)"
proof -
  from assms(5) have mem: "i \<in> set c" by (auto simp: find_Some_iff)
  from assms(6) obtain p where p: "product_of (products w) (entry_id i) = Some p"
    by (auto simp: short_of_stock_def retained_def)
  then have nb: "\<not> bad_reference i" by (auto simp: bad_reference_def product_of_def)
  have "createCheckoutSession env w req =
          (Response 400 (Json_error (''Stock insuffisant: '' @ name p)), w)"
    using checkout_valid [OF assms(1-4), of env w] assms(5) p nb by simp
  with mem p show ?thesis by blast
qed

theorem checkout_rejects_short_stock_witness:
  "http_method (ex_request [ex_entry (JNum (Fin 9))]) = ''POST'' \<and>
   cart (ex_request [ex_entry (JNum (Fin 9))]) = Some [ex_entry (JNum (Fin 9))] \<and>
   truthy (uid (user (ex_request [ex_entry (JNum (Fin 9))]))) \<and>
   truthy (email (user (ex_request [ex_entry (JNum (Fin 9))]))) \<and>
   find (stops (products ex_world)) [ex_entry (JNum (Fin 9))] = Some (ex_entry (JNum (Fin 9))) \<and>
   short_of_stock (products ex_world) (ex_entry (JNum (Fin 9))) \<and>
   createCheckoutSession ex_env ex_world (ex_request [ex_entry (JNum (Fin 9))])
     = (Response 400 (Json_error ''Stock insuffisant: Widget''), ex_world)"
proof -
  let ?e = "ex_entry (JNum (Fin 9))"
  have short: "short_of_stock (products ex_world) ?e"
    by (simp add: short_of_stock_def retained_def ex_entry_simps ex_product_of ex_product_def ex_quantity_9)
  then have first: "find (stops (products ex_world)) [?e] = Some ?e"
    by (simp add: stops_def)
  from checkout_rejects_short_stock [OF ex_request_simps first short, of ex_env]
  obtain p where jp: "product_of (products ex_world) (entry_id ?e) = Some p"
    "createCheckoutSession ex_env ex_world (ex_request [?e])
       = (Response 400 (Json_error (''Stock insuffisant: '' @ name p)), ex_world)"
    by auto
  from jp(1) have "p = ex_product" by (simp add: ex_entry_simps ex_product_of)
  with jp(2) have "createCheckoutSession ex_env ex_world (ex_request [?e])
       = (Response 400 (Json_error ''Stock insuffisant: Widget''), ex_world)"
    by (simp add: ex_product_def)
  with short first show ?thesis by (simp add: ex_request_simps)
qed

lemma ex_fraction_run:
  "fst (createCheckoutSession ex_env ex_world (ex_request [ex_entry (JNum (decimal 59 1))]))
     = Response 200 (Json_url ''https://pay.example/cs_1'')"
  "map_option (map qty \<circ> items)
     (orders (snd (createCheckoutSession ex_env ex_world (ex_request [ex_entry (JNum (decimal 59 1))]))) ''o1'')
     = Some [Fin 5]"
  by code_simp+

lemma ex_slash_run:
  "createCheckoutSession ex_env ex_world
     (ex_request [ex_entry_at ''a/b'' (JNum (Fin 1)), ex_entry (JNum (Fin 9))])
     = (Response 500 (Json_error ''Erreur serveur: not a document path''), ex_world)"
proof -
  let ?c = "[ex_entry_at ''a/b'' (JNum (Fin 1)), ex_entry (JNum (Fin 9))]"
  have bad: "bad_reference (ex_entry_at ''a/b'' (JNum (Fin 1)))"
    by (simp add: bad_reference_def ex_entry_simps ex_refs)
  then have "find (stops (products ex_world)) ?c = Some (ex_entry_at ''a/b'' (JNum (Fin 1)))"
    by (simp add: stops_def)
  with checkout_valid [of "ex_request ?c" ?c ex_env ex_world] bad
  show ?thesis by (simp add: ex_request_simps ex_entry_simps ex_env_def)
qed

text \<open>
  C3 as it is stated fails in two ways. A request for 5.9 of a product with a stock of 5
  asks for more than the stock and is accepted, with an order for 5, since the quantity
  that is compared is the one that \<^verbatim>\<open>parseInt\<close> reads. And a cart with an entry for 9 of
  that product is not answered with 400 when an entry before it has the identifier
  \<open>a/b\<close>: the answer is 500.
\<close>

theorem requested_quantity_counterexample:
  "exceeds_stock (products ex_world) (ex_entry (JNum (decimal 59 1))) \<and>
   fst (createCheckoutSession ex_env ex_world (ex_request [ex_entry (JNum (decimal 59 1))]))
     = Response 200 (Json_url ''https://pay.example/cs_1'') \<and>
   map_option (map qty \<circ> items)
     (orders (snd (createCheckoutSession ex_env ex_world (ex_request [ex_entry (JNum (decimal 59 1))]))) ''o1'')
     = Some [Fin 5] \<and>
   exceeds_stock (products ex_world) (ex_entry (JNum (Fin 9))) \<and>
   createCheckoutSession ex_env ex_world
     (ex_request [ex_entry_at ''a/b'' (JNum (Fin 1)), ex_entry (JNum (Fin 9))])
     = (Response 500 (Json_error ''Erreur serveur: not a document path''), ex_world)"
proof -
  have a: "exceeds_stock (products ex_world) (ex_entry (JNum (decimal 59 1)))"
    using ex_fraction
    by (simp add: exceeds_stock_def retained_def ex_entry_simps ex_product_of ex_product_def)
  have b: "exceeds_stock (products ex_world) (ex_entry (JNum (Fin 9)))"
    by (simp add: exceeds_stock_def retained_def ex_entry_simps ex_product_of ex_product_def)
  from a b ex_fraction_run ex_slash_run show ?thesis by simp
qed





lemma ex_cents: "cents (decimal 999 2) = Fin 999"
  by code_simp

lemma ex_subtotal: "subtotal_of ex_items = decimal 1998 2"
  by code_simp

lemma ex_retained_items: "retained_items (products ex_world) [ex_entry (JNum (Fin 2))] = ex_items"
  by (simp add: retained_items_Cons retained_def ex_entry_def ex_product_of make_item_def ex_product_def
        ex_quantity_2 ex_cents ex_items_def)
     (simp add: retained_items_def List.map_filter_simps)

lemma ex_pending_order:
  "pending_order ex_env (user (ex_request c)) ex_items = ex_order\<lparr>stripeSessionId := None\<rparr>"
  by (simp add: pending_order_def ex_subtotal ex_env_def ex_request_def ex_user_def js_or_def
        ex_order_def)
     (simp add: ex_items_def order_line_of_def decimal_def)

lemma ex_not_stops: "\<not> stops (products ex_world) (ex_entry (JNum (Fin 2)))"
  by (simp add: stops_def bad_reference_def short_of_stock_def retained_def ex_entry_def ex_refs
        ex_product_of ex_product_def ex_quantity_2)

text \<open>The run of the handler on the example.\<close>

lemma ex_checkout:
  "createCheckoutSession ex_env ex_world (ex_request [ex_entry (JNum (Fin 2))]) =
     (Response 200 (Json_url ''https://pay.example/cs_1''),
      ex_world\<lparr>orders := [''o1'' \<mapsto> ex_order],
               trace := [Order_created ''o1'',
                         Session_requested (session_request_of (ex_request [ex_entry (JNum (Fin 2))]) ''o1'' ex_items),
                         Order_updated ''o1'']\<rparr>)"
proof -
  have ne: "ex_items \<noteq> []" by (simp add: ex_items_def)
  have env: "new_order_id ex_env = ''o1''" "processor ex_env r = Inr ex_session" for r
    by (simp_all add: ex_env_def)
  have w: "orders ex_world = Map.empty" "trace ex_world = []" by (simp_all add: ex_world_def)
  have upd: "ex_order\<lparr>stripeSessionId := None, stripeSessionId := Some ''cs_1''\<rparr> = ex_order"
    by (simp add: ex_order_def)
  show ?thesis
    using checkout_valid [of "ex_request [ex_entry (JNum (Fin 2))]" "[ex_entry (JNum (Fin 2))]" ex_env ex_world]
    by (simp add: ex_request_simps ex_not_stops ex_retained_items ne env ex_pending_order w upd
          ex_session_def Let_def)
qed



lemma Math_max_1: "y \<noteq> NaN \<Longrightarrow> Math_max (Fin 1) y = (if js_lt y (Fin 1) then Fin 1 else y)"
  by (cases y) auto

lemma Math_max_1_ge: "\<not> js_lt (Math_max (Fin 1) y) (Fin 1)"
  by (cases y) auto

text \<open>
  C7, as the code has it. For an entry whose product exists: a falsy quantity (zero,
  \<open>NaN\<close>, the empty string, \<open>null\<close>, \<open>false\<close> or none) makes the loop skip the entry; a
  truthy quantity that \<^verbatim>\<open>parseInt\<close> reads as a number gives the effective quantity
  \<open>max 1\<close> of that number, which is never below 1, and the entry is retained with it
  unless the stock is short.
\<close>

theorem quantity_clamped_when_it_parses:
  assumes "entry_id i \<noteq> []" and "product_of ps (entry_id i) = Some p"
  shows "(\<not> truthy (entry_quantity i) \<longrightarrow>
            validate_cart err ps (i # rest) acc = validate_cart err ps rest acc) \<and>
         (truthy (entry_quantity i) \<and> parseInt (entry_quantity i) \<noteq> NaN \<longrightarrow>
            effective_quantity (entry_quantity i)
              = (if js_lt (parseInt (entry_quantity i)) (Fin 1) then Fin 1 else parseInt (entry_quantity i)) \<and>
            \<not> js_lt (effective_quantity (entry_quantity i)) (Fin 1) \<and>
            (\<not> short_of_stock ps i \<longrightarrow>
               validate_cart err ps (i # rest) acc = validate_cart err ps rest (acc @ [make_item i p]) \<and>
               quantity (make_item i p) = effective_quantity (entry_quantity i)))"
proof (intro conjI impI)
  assume "\<not> truthy (entry_quantity i)"
  then show "validate_cart err ps (i # rest) acc = validate_cart err ps rest acc" by simp
next
  assume a: "truthy (entry_quantity i) \<and> parseInt (entry_quantity i) \<noteq> NaN"
  then show "effective_quantity (entry_quantity i)
      = (if js_lt (parseInt (entry_quantity i)) (Fin 1) then Fin 1 else parseInt (entry_quantity i))"
    by (simp add: effective_quantity_def Math_max_1)
next
  show "\<not> js_lt (effective_quantity (entry_quantity i)) (Fin 1)"
    by (simp add: effective_quantity_def Math_max_1_ge)
next
  assume a: "truthy (entry_quantity i) \<and> parseInt (entry_quantity i) \<noteq> NaN"
    and ns: "\<not> short_of_stock ps i"
  from assms(2) obtain k where k: "doc_ref (entry_id i) = Some k" "ps k = Some p"
    by (auto simp: product_of_def split: option.splits)
  from a assms ns
  have "\<not> (case stock p of None \<Rightarrow> False | Some s \<Rightarrow> js_lt s (effective_quantity (entry_quantity i)))"
    by (simp add: short_of_stock_def retained_def)
  with a assms k show "validate_cart err ps (i # rest) acc = validate_cart err ps rest (acc @ [make_item i p])"
    by (simp add: Let_def)
next
  show "quantity (make_item i p) = effective_quantity (entry_quantity i)"
    by (simp add: make_item_def)
qed

lemma ex_parse_negative: "parseInt (JNum (Fin (- 3))) = Fin (- 3)"
  by code_simp

lemma ex_parse_zero_text: "parseInt (JStr ''0'') = Fin 0"
  by code_simp

lemma ex_parse_text: "parseInt (JStr ''abc'') = NaN"
  by code_simp

theorem quantity_clamped_when_it_parses_witness:
  "entry_id (ex_entry (JNum (Fin (- 3)))) \<noteq> [] \<and>
   product_of (products ex_world) (entry_id (ex_entry (JNum (Fin (- 3))))) = Some ex_product \<and>
   truthy (entry_quantity (ex_entry (JNum (Fin (- 3))))) \<and>
   parseInt (entry_quantity (ex_entry (JNum (Fin (- 3))))) \<noteq> NaN \<and>
   \<not> short_of_stock (products ex_world) (ex_entry (JNum (Fin (- 3)))) \<and>
   effective_quantity (JNum (Fin (- 3))) = Fin 1 \<and>
   effective_quantity (JStr ''0'') = Fin 1 \<and>
   validate_cart (reference_error ex_env) (products ex_world) [ex_entry (JNum (Fin (- 3)))] []
     = Inr [make_item (ex_entry (JNum (Fin (- 3)))) ex_product] \<and>
   quantity (make_item (ex_entry (JNum (Fin (- 3)))) ex_product) = Fin 1 \<and>
   \<not> truthy (entry_quantity (ex_entry JNull)) \<and>
   validate_cart (reference_error ex_env) (products ex_world) [ex_entry JNull] [] = Inr []"
proof -
  let ?i = "ex_entry (JNum (Fin (- 3)))"
  let ?z = "ex_entry (JStr ''0'')"
  let ?err = "reference_error ex_env"
  have idi: "entry_id (ex_entry q) \<noteq> []" "product_of (products ex_world) (entry_id (ex_entry q)) = Some ex_product"
    "entry_quantity (ex_entry q) = q" for q
    by (simp_all add: ex_entry_def ex_product_of)
  have tr: "truthy (JNum (Fin (- 3)))" "truthy (JStr ''0'')" "\<not> truthy JNull" by simp_all
  have pn: "parseInt (JNum (Fin (- 3))) \<noteq> NaN" "parseInt (JStr ''0'') \<noteq> NaN"
    by (simp_all add: ex_parse_negative ex_parse_zero_text del: parseInt.simps)
  from quantity_clamped_when_it_parses [where i = "ex_entry (JNum (Fin (- 3)))" and ps = "products ex_world"
         and p = ex_product and rest = "[]" and acc = "[]" and err = ?err] tr pn
  have e1: "effective_quantity (JNum (Fin (- 3))) = Fin 1"
    by (simp add: idi ex_parse_negative del: parseInt.simps)
  from quantity_clamped_when_it_parses [where i = "ex_entry (JStr ''0'')" and ps = "products ex_world"
         and p = ex_product and rest = "[]" and acc = "[]" and err = ?err] tr pn
  have e2: "effective_quantity (JStr ''0'') = Fin 1"
    by (simp add: idi ex_parse_zero_text del: parseInt.simps)
  have ns: "\<not> short_of_stock (products ex_world) ?i"
    by (simp add: short_of_stock_def retained_def idi ex_product_def e1)
  from quantity_clamped_when_it_parses [where i = "ex_entry (JNum (Fin (- 3)))" and ps = "products ex_world"
         and p = ex_product and rest = "[]" and acc = "[]" and err = ?err] tr pn ns
  have v: "validate_cart ?err (products ex_world) [?i] [] = Inr [make_item ?i ex_product]"
    "quantity (make_item ?i ex_product) = Fin 1"
    by (simp_all add: idi e1)
  from quantity_clamped_when_it_parses [where i = "ex_entry JNull" and ps = "products ex_world"
         and p = ex_product and rest = "[]" and acc = "[]" and err = ?err]
  have d: "validate_cart ?err (products ex_world) [ex_entry JNull] [] = Inr []"
    by (simp add: idi)
  show ?thesis using tr pn e1 e2 ns v d by (simp add: idi)
qed

text \<open>
  C7 as it is stated fails on a quantity of zero, whose entry is skipped, not kept with
  quantity 1, and on a quantity that is not numeric, which gives the quantity \<open>NaN\<close>.
\<close>

theorem quantity_zero_or_text_counterexample:
  "validate_cart (reference_error ex_env) (products ex_world) [ex_entry (JNum (Fin 0))] [] = Inr [] \<and>
   createCheckoutSession ex_env ex_world (ex_request [ex_entry (JNum (Fin 0))])
     = (Response 400 (Json_error ''Panier vide''), ex_world) \<and>
   effective_quantity (JStr ''abc'') = NaN \<and>
   validate_cart (reference_error ex_env) (products ex_world) [ex_entry (JStr ''abc'')] []
     = Inr [make_item (ex_entry (JStr ''abc'')) ex_product] \<and>
   quantity (make_item (ex_entry (JStr ''abc'')) ex_product) = NaN"
proof -
  let ?err = "reference_error ex_env"
  have z: "validate_cart ?err (products ex_world) [ex_entry (JNum (Fin 0))] [] = Inr []"
    by (simp add: ex_entry_def)
  have nr: "\<not> retained (products ex_world) (ex_entry (JNum (Fin 0)))"
    by (simp add: retained_def ex_entry_def)
  then have ns: "\<not> stops (products ex_world) (ex_entry (JNum (Fin 0)))"
    by (simp add: stops_def short_of_stock_def bad_reference_def ex_entry_def)
  have run: "createCheckoutSession ex_env ex_world (ex_request [ex_entry (JNum (Fin 0))])
     = (Response 400 (Json_error ''Panier vide''), ex_world)"
    using checkout_valid [of "ex_request [ex_entry (JNum (Fin 0))]" "[ex_entry (JNum (Fin 0))]" ex_env ex_world]
    by (simp add: ex_request_simps ns retained_items_Cons nr)
       (simp add: retained_items_def List.map_filter_simps)
  have e: "effective_quantity (JStr ''abc'') = NaN"
    by (simp add: effective_quantity_def ex_parse_text del: parseInt.simps)
  have v: "validate_cart ?err (products ex_world) [ex_entry (JStr ''abc'')] []
     = Inr [make_item (ex_entry (JStr ''abc'')) ex_product]"
    by (simp add: ex_entry_def ex_refs ex_p1 e ex_product_def)
  have q: "quantity (make_item (ex_entry (JStr ''abc'')) ex_product) = NaN"
    by (simp add: make_item_def ex_entry_def e)
  show ?thesis using z run e v q by simp
qed

text \<open>
  C5, as the code has it. Whenever the handler answers 200, its side effects are, in this
  order: the creation of the order document, the request of a session to the processor,
  whose metadata carries the identifier of the order just created, and then the update of
  the order with the identifier of the session.
\<close>

theorem checkout_effects_in_order:
  assumes "fst (createCheckoutSession env w req) = Response 200 b"
  shows "\<exists>sreq session.
           trace (snd (createCheckoutSession env w req))
             = trace w @ [Order_created (new_order_id env), Session_requested sreq,
                          Order_updated (new_order_id env)] \<and>
           metadata_firebaseOrderId sreq = new_order_id env \<and>
           processor env sreq = Inr session \<and>
           b = Json_url (session_url session) \<and>
           map_option stripeSessionId (orders (snd (createCheckoutSession env w req)) (new_order_id env))
             = Some (Some (session_id session))"
proof -
  from assms have post: "http_method req = ''POST''"
    by (auto simp: createCheckoutSession_def split: if_splits)
  with assms obtain c where c: "cart req = Some c"
    by (cases "cart req") (auto simp: createCheckoutSession_def)
  from assms post c have u: "truthy (uid (user req))" "truthy (email (user req))"
    by (auto simp: createCheckoutSession_def split: if_splits)
  note run = checkout_valid [OF post c u, of env w]
  from assms run have none: "find (stops (products w)) c = None"
    by (cases "find (stops (products w)) c") (auto split: if_splits)
  from assms run none have ne: "retained_items (products w) c \<noteq> []"
    by (auto split: if_splits)
  let ?its = "retained_items (products w) c"
  let ?sreq = "session_request_of req (new_order_id env) ?its"
  from assms run none ne obtain session where s: "processor env ?sreq = Inr session"
    by (cases "processor env ?sreq") (auto simp: Let_def)
  from run none ne s have
    "createCheckoutSession env w req =
       (Response 200 (Json_url (session_url session)),
        w\<lparr>orders := (orders w)(new_order_id env \<mapsto>
              (pending_order env (user req) ?its)\<lparr>stripeSessionId := Some (session_id session)\<rparr>),
          trace := trace w @ [Order_created (new_order_id env), Session_requested ?sreq,
                              Order_updated (new_order_id env)]\<rparr>)"
    by (simp add: Let_def)
  with assms s show ?thesis
    by (auto simp: session_request_of_def)
qed

theorem checkout_effects_in_order_witness:
  "fst (createCheckoutSession ex_env ex_world (ex_request [ex_entry (JNum (Fin 2))]))
     = Response 200 (Json_url ''https://pay.example/cs_1'') \<and>
   (\<exists>sreq. trace (snd (createCheckoutSession ex_env ex_world (ex_request [ex_entry (JNum (Fin 2))])))
      = [Order_created ''o1'', Session_requested sreq, Order_updated ''o1''] \<and>
      metadata_firebaseOrderId sreq = ''o1'') \<and>
   map_option stripeSessionId
     (orders (snd (createCheckoutSession ex_env ex_world (ex_request [ex_entry (JNum (Fin 2))]))) ''o1'')
     = Some (Some ''cs_1'')"
proof -
  have ok: "fst (createCheckoutSession ex_env ex_world (ex_request [ex_entry (JNum (Fin 2))]))
     = Response 200 (Json_url ''https://pay.example/cs_1'')"
    by (simp add: ex_checkout)
  have env: "new_order_id ex_env = ''o1''" "processor ex_env r = Inr ex_session" for r
    by (simp_all add: ex_env_def)
  have w: "trace ex_world = []" by (simp add: ex_world_def)
  from checkout_effects_in_order [OF ok] show ?thesis
    using ok by (auto simp: env w ex_session_def)
qed

text \<open>
  C5 as it is stated fails on the example: the update of the order comes after the
  request to the processor, not before it.
\<close>

theorem update_follows_session_counterexample:
  "fst (createCheckoutSession ex_env ex_world (ex_request [ex_entry (JNum (Fin 2))]))
     = Response 200 (Json_url ''https://pay.example/cs_1'') \<and>
   \<not> create_update_session
       (trace (snd (createCheckoutSession ex_env ex_world (ex_request [ex_entry (JNum (Fin 2))])))) \<and>
   create_session_update
       (trace (snd (createCheckoutSession ex_env ex_world (ex_request [ex_entry (JNum (Fin 2))]))))"
  by (simp add: ex_checkout)

lemma ex_two_carts_stock:
  "map_option stock (products ex_both_paid ''p1'') = Some (Some (Fin (- 1)))"
  by code_simp

lemma ex_two_carts_answers:
  "fst (createCheckoutSession ex_env ex_world (ex_request [ex_entry (JNum (Fin 3))]))
     = Response 200 (Json_url ''https://pay.example/cs_1'')"
  "fst (createCheckoutSession (ex_env\<lparr>new_order_id := ''o2''\<rparr>)
            (snd (createCheckoutSession ex_env ex_world (ex_request [ex_entry (JNum (Fin 3))])))
            (ex_request [ex_entry (JNum (Fin 3))]))
     = Response 200 (Json_url ''https://pay.example/cs_1'')"
  by code_simp+

text \<open>
  C6 as it is stated fails: two buyers each order 3 of a product with a stock of 5, both
  checkouts are accepted since the stock is only read, and after the two payments the
  stock is \<open>-1\<close>.
\<close>

theorem two_orders_overdraw_stock_counterexample:
  "map_option stock (products ex_world ''p1'') = Some (Some (Fin 5)) \<and>
   fst (createCheckoutSession ex_env ex_world (ex_request [ex_entry (JNum (Fin 3))]))
     = Response 200 (Json_url ''https://pay.example/cs_1'') \<and>
   fst (createCheckoutSession (ex_env\<lparr>new_order_id := ''o2''\<rparr>)
            (snd (createCheckoutSession ex_env ex_world (ex_request [ex_entry (JNum (Fin 3))])))
            (ex_request [ex_entry (JNum (Fin 3))]))
     = Response 200 (Json_url ''https://pay.example/cs_1'') \<and>
   map_option stock (products ex_both_paid ''p1'') = Some (Some (Fin (- 1))) \<and>
   is_negative (Fin (- 1))"
  using ex_two_carts_stock ex_two_carts_answers(1,2)
  by (simp add: ex_p1 ex_product_def)

text \<open>What an answer 200 of the checkout handler tells.\<close>

lemma checkout_ok:
  assumes "fst (createCheckoutSession env w req) = Response 200 b"
  shows "\<exists>c (session :: checkout_session).
           cart req = Some c \<and> (\<forall>i \<in> set c. \<not> stops (products w) i) \<and>
           createCheckoutSession env w req =
             (Response 200 (Json_url (session_url session)),
              w\<lparr>orders := (orders w)(new_order_id env \<mapsto>
                    (pending_order env (user req) (retained_items (products w) c))
                      \<lparr>stripeSessionId := Some (session_id session)\<rparr>),
                trace := trace w @ [Order_created (new_order_id env),
                   Session_requested (session_request_of req (new_order_id env) (retained_items (products w) c)),
                   Order_updated (new_order_id env)]\<rparr>)"
proof -
  from assms have post: "http_method req = ''POST''"
    by (auto simp: createCheckoutSession_def split: if_splits)
  with assms obtain c where c: "cart req = Some c"
    by (cases "cart req") (auto simp: createCheckoutSession_def)
  from assms post c have u: "truthy (uid (user req))" "truthy (email (user req))"
    by (auto simp: createCheckoutSession_def split: if_splits)
  note run = checkout_valid [OF post c u, of env w]
  from assms run have none: "find (stops (products w)) c = None"
    by (cases "find (stops (products w)) c") (auto split: if_splits)
  from assms run none have ne: "retained_items (products w) c \<noteq> []"
    by (auto split: if_splits)
  let ?its = "retained_items (products w) c"
  let ?sreq = "session_request_of req (new_order_id env) ?its"
  from assms run none ne obtain session where s: "processor env ?sreq = Inr session"
    by (cases "processor env ?sreq") (auto simp: Let_def)
  from run none ne s have
    "createCheckoutSession env w req =
       (Response 200 (Json_url (session_url session)),
        w\<lparr>orders := (orders w)(new_order_id env \<mapsto>
              (pending_order env (user req) ?its)\<lparr>stripeSessionId := Some (session_id session)\<rparr>),
          trace := trace w @ [Order_created (new_order_id env), Session_requested ?sreq,
                              Order_updated (new_order_id env)]\<rparr>)"
    by (simp add: Let_def)
  with c none have
    "cart req = Some c \<and> (\<forall>i \<in> set c. \<not> stops (products w) i) \<and>
     createCheckoutSession env w req =
       (Response 200 (Json_url (session_url session)),
        w\<lparr>orders := (orders w)(new_order_id env \<mapsto>
              (pending_order env (user req) ?its)\<lparr>stripeSessionId := Some (session_id session)\<rparr>),
          trace := trace w @ [Order_created (new_order_id env), Session_requested ?sreq,
                              Order_updated (new_order_id env)]\<rparr>)"
    by (simp add: find_stops_None)
  then show ?thesis by blast
qed

lemma filter_key_le1:
  "distinct (map f xs) \<Longrightarrow> length (filter (\<lambda>x. P x \<and> f x = k) xs) \<le> 1"
proof (induction xs)
  case Nil
  then show ?case by simp
next
  case (Cons x xs)
  show ?case
  proof (cases "f x = k")
    case True
    with Cons.prems have "\<forall>y \<in> set xs. f y \<noteq> k" by (metis distinct.simps(2) image_eqI list.simps(9) set_map)
    then have "filter (\<lambda>x. P x \<and> f x = k) xs = []" by (simp add: filter_empty_conv)
    then show ?thesis by simp
  next
    case False
    with Cons show ?thesis by simp
  qed
qed

lemma line_quantities_of_cart:
  "line_quantities (map order_line_of (retained_items ps c)) k =
     map (\<lambda>i. effective_quantity (entry_quantity i))
       (filter (\<lambda>i. truthy_num (effective_quantity (entry_quantity i)) \<and> doc_ref (entry_id i) = Some k)
          (filter (retained ps) c))"
  by (simp add: line_quantities_def retained_items_filter filter_map o_def counted_def
        order_line_of_def make_item_def)
     (rule arg_cong, rule filter_cong, auto simp: retained_def)

text \<open>
  C6, as the code has it. The only guard is the comparison of the checkout handler, at
  the time of the checkout. So: when an order comes out of a checkout in which no two
  retained entries refer to the same product document, and its completion event is
  applied once to the world that the checkout left, then a product whose stock was
  numeric and not negative at the checkout has a numeric stock that is not negative after
  the payment.
\<close>

theorem stock_not_negative_after_one_payment:
  assumes "fst (createCheckoutSession cenv w creq) = Response 200 b"
    and "cart creq = Some c"
    and "distinct (map (\<lambda>i. doc_ref (entry_id i)) (filter (retained (products w)) c))"
    and "constructEvent wenv (rawBody wreq) (stripe_signature wreq) = Inr ev"
    and "event_type ev = ''checkout.session.completed''"
    and "firebaseOrderId (data_object ev) = Some (new_order_id cenv)"
    and "doc_ref (new_order_id cenv) = Some (new_order_id cenv)"
    and "products w pk = Some p" and "stock p = Some s" and "\<not> is_negative s"
  shows "\<exists>w2 p' s'.
           stripeWebhook wenv (snd (createCheckoutSession cenv w creq)) wreq = (Response 200 Empty, w2) \<and>
           products w2 pk = Some p' \<and> stock p' = Some s' \<and> \<not> is_negative s'"
proof -
  let ?ps = "products w"
  let ?oid = "new_order_id cenv"
  let ?its = "retained_items ?ps c"
  let ?lines = "map order_line_of ?its"
  from checkout_ok [OF assms(1)] assms(2) obtain session :: checkout_session where
    ok: "\<forall>i \<in> set c. \<not> stops ?ps i"
    and run: "createCheckoutSession cenv w creq =
             (Response 200 (Json_url (session_url session)),
              w\<lparr>orders := (orders w)(?oid \<mapsto>
                    (pending_order cenv (user creq) ?its)\<lparr>stripeSessionId := Some (session_id session)\<rparr>),
                trace := trace w @ [Order_created ?oid,
                   Session_requested (session_request_of creq ?oid ?its), Order_updated ?oid]\<rparr>)"
    by auto
  let ?doc = "(pending_order cenv (user creq) ?its)\<lparr>stripeSessionId := Some (session_id session)\<rparr>"
  let ?w1 = "snd (createCheckoutSession cenv w creq)"
  have w1: "products ?w1 = ?ps" "orders ?w1 ?oid = Some ?doc"
    by (simp_all add: run)
  have lines: "items ?doc = ?lines" by (simp add: pending_order_def)
  have all: "\<forall>it \<in> set (items ?doc). counted it \<longrightarrow> product_of (products ?w1) (productId it) \<noteq> None"
    unfolding lines w1
    by (auto simp: retained_items_filter retained_def order_line_of_def make_item_def)
  from webhook_matching [OF assms(4,5,6,7) w1(2)] all
  obtain w2 where w2: "stripeWebhook wenv ?w1 wreq = (Response 200 Empty, w2)"
    "products w2 = stock_after ?ps ?lines"
    by (simp add: w1 lines)
  let ?qs = "line_quantities ?lines pk"
  have p': "products w2 pk = Some (p\<lparr>stock := foldl decrement (Some s) ?qs\<rparr>)"
    using assms(8,9) by (simp add: w2 stock_after_def)
  have len: "length ?qs \<le> 1"
    unfolding line_quantities_of_cart
    using filter_key_le1 [OF assms(3), of _ "Some pk"] by simp
  have safe: "\<not> js_lt s q" if "q \<in> set ?qs" for q
  proof -
    from that obtain i where i: "i \<in> set c" "retained ?ps i" "doc_ref (entry_id i) = Some pk"
      "q = effective_quantity (entry_quantity i)"
      unfolding line_quantities_of_cart by auto
    from ok i(1) have "\<not> short_of_stock ?ps i" by (simp add: stops_def)
    with i(2,3) assms(8,9) show ?thesis
      by (simp add: short_of_stock_def product_of_def i(4))
  qed
  have "\<exists>s'. foldl decrement (Some s) ?qs = Some s' \<and> \<not> is_negative s'"
  proof (cases ?qs)
    case Nil
    then show ?thesis using assms(10) by simp
  next
    case (Cons q rest)
    with len have "rest = []" by simp
    with Cons safe [of q] show ?thesis
      by (simp add: decrement_def sub_not_negative)
  qed
  then obtain s' where "foldl decrement (Some s) ?qs = Some s'" "\<not> is_negative s'" by blast
  with p' w2(1) show ?thesis by simp
qed

theorem stock_not_negative_after_one_payment_witness:
  "fst (createCheckoutSession ex_env ex_world (ex_request [ex_entry (JNum (Fin 2))]))
     = Response 200 (Json_url ''https://pay.example/cs_1'') \<and>
   distinct (map (\<lambda>i. doc_ref (entry_id i))
      (filter (retained (products ex_world)) [ex_entry (JNum (Fin 2))])) \<and>
   doc_ref (new_order_id ex_env) = Some (new_order_id ex_env) \<and>
   products ex_world ''p1'' = Some ex_product \<and> stock ex_product = Some (Fin 5) \<and>
   \<not> is_negative (Fin 5) \<and>
   (\<exists>w2 p' s'.
      stripeWebhook (ex_webhook_env ex_paid_event)
          (snd (createCheckoutSession ex_env ex_world (ex_request [ex_entry (JNum (Fin 2))])))
          (ex_delivery ''good'') = (Response 200 Empty, w2) \<and>
      products w2 ''p1'' = Some p' \<and> stock p' = Some s' \<and> \<not> is_negative s')"
proof -
  have ok: "fst (createCheckoutSession ex_env ex_world (ex_request [ex_entry (JNum (Fin 2))]))
     = Response 200 (Json_url ''https://pay.example/cs_1'')"
    by (simp add: ex_checkout)
  have ev: "constructEvent (ex_webhook_env ex_paid_event) (rawBody (ex_delivery ''good''))
      (stripe_signature (ex_delivery ''good'')) = Inr ex_paid_event"
    by (rule ex_webhook_simps)
  have ty: "event_type ex_paid_event = ''checkout.session.completed''"
    by (simp add: ex_paid_event_def ex_webhook_simps)
  have oid: "firebaseOrderId (data_object ex_paid_event) = Some (new_order_id ex_env)"
    "doc_ref (new_order_id ex_env) = Some (new_order_id ex_env)"
    by (simp_all add: ex_paid_event_def ex_webhook_simps ex_env_def ex_refs)
  have d: "distinct (map (\<lambda>i. doc_ref (entry_id i))
      (filter (retained (products ex_world)) [ex_entry (JNum (Fin 2))]))"
    by simp
  have st: "stock ex_product = Some (Fin 5)" "\<not> is_negative (Fin 5)"
    by (simp_all add: ex_product_def)
  from stock_not_negative_after_one_payment
         [OF ok ex_request_simps(2) d ev ty oid ex_p1 st]
  show ?thesis using ok d oid(2) st by (simp add: ex_p1)
qed






end
